theory Spec2Isabelle
  imports Main
begin

section \<open>Data model\<close>

text \<open>
  The module \<^verbatim>\<open>mmd_tools/core/material.py\<close> wraps one host material in the class
  \<^verbatim>\<open>FnMaterial\<close> and works on the host's collections \<^verbatim>\<open>bpy.data.materials\<close>,
  \<^verbatim>\<open>bpy.data.textures\<close> and \<^verbatim>\<open>bpy.data.images\<close>. Textures and images are shared
  objects: a slot holds a reference to a texture, a texture holds a reference to an
  image. The model keeps them in stores keyed by a reference (an object identity), in
  the order in which the host iterates over them. Materials are neither created nor
  removed by this module, so a material is identified by its position in
  \<^verbatim>\<open>bpy.data.materials\<close>.
\<close>

type_synonym tex_ref = nat
type_synonym img_ref = nat

record image =
  img_name :: string
  img_source :: string
  img_filepath :: string
  img_use_alpha :: bool
  img_size :: "nat \<times> nat"

record texture =
  tex_name :: string
  tex_type :: string
  tex_image :: "img_ref option"
  tex_use_alpha :: bool
  tex_extension :: string

text \<open>A texture slot; \<open>slot_use\<close> is the attribute \<^verbatim>\<open>use\<close>, \<open>slot_texture\<close> the attribute
  \<^verbatim>\<open>texture\<close> (\<open>None\<close> is Python's \<^verbatim>\<open>None\<close>).\<close>

record texture_slot =
  use_map_alpha :: bool
  texture_coords :: string
  blend_type :: string
  slot_use :: bool
  slot_texture :: "tex_ref option"

text \<open>
  Modelled from the spec: the property group \<^verbatim>\<open>mmd_material\<close> is declared in a file
  of the add-on that is not among the sources. Its fields are the ones the module reads
  and the spec lists; \<open>sphere_texture_type\<close> is the integer code that
  \<^verbatim>\<open>int(mmd_material.sphere_texture_type)\<close> yields.
\<close>

record mmd_material =
  material_id :: int
  is_shared_toon_texture :: bool
  shared_toon_texture :: int
  toon_texture :: string
  enabled_self_shadow_map :: bool
  enabled_self_shadow :: bool
  sphere_texture_type :: int

text \<open>A host material. \<open>texture_slots ! i = None\<close> is an empty slot;
  \<open>use_cast_shadows = None\<close> is a host on which the material has no such attribute
  (\<^verbatim>\<open>hasattr(mat, 'use_cast_shadows')\<close> is false).\<close>

record material =
  mmd_material :: mmd_material
  texture_slots :: "texture_slot option list"
  use_cast_buffer_shadows :: bool
  use_cast_shadows :: "bool option"
  use_shadows :: bool
  use_transparent_shadows :: bool

text \<open>The scene store \<^verbatim>\<open>bpy.data\<close>, and the lines written by \<^verbatim>\<open>logging.warning\<close>.\<close>

record bpy_data =
  materials :: "material list"
  textures :: "(tex_ref \<times> texture) list"
  images :: "(img_ref \<times> image) list"
  warnings :: "string list"

text \<open>
  What the module calls and does not define: the file system (\<^verbatim>\<open>os.path\<close>), the host's
  path functions (\<^verbatim>\<open>bpy.path\<close>), the loader \<^verbatim>\<open>bpy.data.images.load\<close> (\<open>None\<close> when it
  raises), the add-on preference \<^verbatim>\<open>shared_toon_folder\<close>, the attribute values the
  host gives a new image, texture and slot, and the place at which the host files a new
  datablock of a given name among the existing ones. \<open>abspath\<close> is what
  \<^verbatim>\<open>image.filepath_from_user()\<close> makes of the image's \<^verbatim>\<open>filepath\<close>; \<open>samefile\<close> is
  \<^verbatim>\<open>os.path.samefile\<close>, \<open>None\<close> when it raises.
\<close>

record host =
  abspath :: "string \<Rightarrow> string"
  samefile :: "string \<Rightarrow> string \<Rightarrow> bool option"
  images_load :: "string \<Rightarrow> image option"
  basename :: "string \<Rightarrow> string"
  display_name_from_filepath :: "string \<Rightarrow> string"
  resolve_ncase :: "string \<Rightarrow> string"
  path_join :: "string \<Rightarrow> string \<Rightarrow> string"
  shared_toon_folder :: string
  image_defaults :: image
  texture_defaults :: texture
  slot_defaults :: texture_slot
  new_index :: "string \<Rightarrow> string list \<Rightarrow> nat"

datatype error = AttributeError | IndexError | ReferenceError

definition SPHERE_MODE_OFF :: int where "SPHERE_MODE_OFF = 0"
definition SPHERE_MODE_MULT :: int where "SPHERE_MODE_MULT = 1"
definition SPHERE_MODE_ADD :: int where "SPHERE_MODE_ADD = 2"
definition SPHERE_MODE_SUBTEX :: int where "SPHERE_MODE_SUBTEX = 3"

definition BASE_TEX_SLOT :: nat where "BASE_TEX_SLOT = 0"
definition TOON_TEX_SLOT :: nat where "TOON_TEX_SLOT = 1"
definition SPHERE_TEX_SLOT :: nat where "SPHERE_TEX_SLOT = 2"

section \<open>The host's collections\<close>

text \<open>A new object is distinct from every object that is referred to: its reference
  is above all the references in use.\<close>

definition fresh :: "nat list \<Rightarrow> nat" where
  "fresh rs = Suc (fold max rs 0)"

definition insert_at :: "nat \<Rightarrow> 'a \<Rightarrow> 'a list \<Rightarrow> 'a list" where
  "insert_at n x xs = take n xs @ x # drop n xs"

definition all_slots :: "bpy_data \<Rightarrow> texture_slot list" where
  "all_slots s = concat (map (\<lambda>m. List.map_filter id (texture_slots m)) (materials s))"

definition slot_tex_refs :: "bpy_data \<Rightarrow> tex_ref list" where
  "slot_tex_refs s = List.map_filter slot_texture (all_slots s)"

definition tex_img_refs :: "bpy_data \<Rightarrow> img_ref list" where
  "tex_img_refs s = List.map_filter (\<lambda>(r, t). tex_image t) (textures s)"

text \<open>The attribute \<^verbatim>\<open>users\<close>: a texture is used by the slots that hold it, an image
  by the textures that hold it.\<close>

definition tex_users :: "bpy_data \<Rightarrow> tex_ref \<Rightarrow> nat" where
  "tex_users s t = length (filter (\<lambda>r. r = t) (slot_tex_refs s))"

definition img_users :: "bpy_data \<Rightarrow> img_ref \<Rightarrow> nat" where
  "img_users s i = length (filter (\<lambda>r. r = i) (tex_img_refs s))"

text \<open>A new image enters \<^verbatim>\<open>bpy.data.images\<close> under a new reference, at the place the
  host chooses. \<^verbatim>\<open>bpy.data.images.new(name, width, height)\<close> adds an image with the
  host's attribute values for a new image, of that name and size.\<close>

definition images_add :: "host \<Rightarrow> image \<Rightarrow> bpy_data \<Rightarrow> img_ref \<times> bpy_data" where
  "images_add h img s =
     (let r = fresh (map fst (images s) @ tex_img_refs s);
          n = new_index h (img_name img) (map (\<lambda>(k, i). img_name i) (images s))
      in (r, s\<lparr>images := insert_at n (r, img) (images s)\<rparr>))"

definition images_new :: "host \<Rightarrow> string \<Rightarrow> nat \<Rightarrow> nat \<Rightarrow> bpy_data \<Rightarrow> img_ref \<times> bpy_data" where
  "images_new h name width height s =
     images_add h ((image_defaults h)\<lparr>img_name := name, img_size := (width, height)\<rparr>) s"

text \<open>\<^verbatim>\<open>bpy.data.textures.new(name, type)\<close>: a texture of the given type with no image.\<close>

definition textures_new :: "host \<Rightarrow> string \<Rightarrow> string \<Rightarrow> bpy_data \<Rightarrow> tex_ref \<times> bpy_data" where
  "textures_new h name ty s =
     (let r = fresh (map fst (textures s) @ slot_tex_refs s);
          n = new_index h name (map (\<lambda>(k, t). tex_name t) (textures s));
          tex = (texture_defaults h)\<lparr>tex_name := name, tex_type := ty, tex_image := None\<rparr>
      in (r, s\<lparr>textures := insert_at n (r, tex) (textures s)\<rparr>))"

definition textures_remove :: "tex_ref \<Rightarrow> bpy_data \<Rightarrow> bpy_data" where
  "textures_remove t s = s\<lparr>textures := filter (\<lambda>(r, x). r \<noteq> t) (textures s)\<rparr>"

definition images_remove :: "img_ref \<Rightarrow> bpy_data \<Rightarrow> bpy_data" where
  "images_remove i s = s\<lparr>images := filter (\<lambda>(r, x). r \<noteq> i) (images s)\<rparr>"

text \<open>Assignments to an attribute of the object behind a reference.\<close>

definition image_update :: "img_ref \<Rightarrow> (image \<Rightarrow> image) \<Rightarrow> bpy_data \<Rightarrow> bpy_data" where
  "image_update i f s = s\<lparr>images := map (\<lambda>(r, x). if r = i then (r, f x) else (r, x)) (images s)\<rparr>"

definition texture_update :: "tex_ref \<Rightarrow> (texture \<Rightarrow> texture) \<Rightarrow> bpy_data \<Rightarrow> bpy_data" where
  "texture_update t f s = s\<lparr>textures := map (\<lambda>(r, x). if r = t then (r, f x) else (r, x)) (textures s)\<rparr>"

definition material_update :: "nat \<Rightarrow> (material \<Rightarrow> material) \<Rightarrow> bpy_data \<Rightarrow> bpy_data" where
  "material_update m f s = s\<lparr>materials := (materials s)[m := f (materials s ! m)]\<rparr>"

definition slot_set :: "nat \<Rightarrow> nat \<Rightarrow> texture_slot option \<Rightarrow> bpy_data \<Rightarrow> bpy_data" where
  "slot_set m idx v s =
     material_update m (\<lambda>mat. mat\<lparr>texture_slots := (texture_slots mat)[idx := v]\<rparr>) s"

definition slot_update :: "nat \<Rightarrow> nat \<Rightarrow> (texture_slot \<Rightarrow> texture_slot) \<Rightarrow> bpy_data \<Rightarrow> bpy_data" where
  "slot_update m idx f s =
     slot_set m idx (map_option f (texture_slots (materials s ! m) ! idx)) s"

text \<open>\<^verbatim>\<open>texture_slots.create(index)\<close> puts a new slot at the index (replacing the one
  there), \<^verbatim>\<open>texture_slots.clear(index)\<close> empties it.\<close>

definition slots_create :: "host \<Rightarrow> nat \<Rightarrow> nat \<Rightarrow> bpy_data \<Rightarrow> bpy_data" where
  "slots_create h m idx s = slot_set m idx (Some ((slot_defaults h)\<lparr>slot_texture := None\<rparr>)) s"

definition slots_clear :: "nat \<Rightarrow> nat \<Rightarrow> bpy_data \<Rightarrow> bpy_data" where
  "slots_clear m idx s = slot_set m idx None s"

text \<open>The image of a texture as the program reads it: \<open>None\<close> when the texture has
  none, or refers to an image that the store does not hold.\<close>

definition image_of :: "bpy_data \<Rightarrow> texture \<Rightarrow> image option" where
  "image_of s t = (case tex_image t of None \<Rightarrow> None | Some i \<Rightarrow> map_of (images s) i)"

section \<open>FnMaterial\<close>

subsection \<open>Identity\<close>

text \<open>\<^verbatim>\<open>from_material_id\<close>: the loop over \<^verbatim>\<open>bpy.data.materials\<close>, from position \<open>k\<close>,
  reading the stored field of each material. It returns the wrapped material (or
  \<open>None\<close>) and the store it leaves.\<close>

fun from_material_id_loop :: "int \<Rightarrow> nat \<Rightarrow> material list \<Rightarrow> bpy_data \<Rightarrow> nat option \<times> bpy_data" where
  "from_material_id_loop mid k [] s = (None, s)"
| "from_material_id_loop mid k (mat # rest) s =
     (if material_id (mmd_material mat) = mid then (Some k, s)
      else from_material_id_loop mid (Suc k) rest s)"

definition from_material_id :: "int \<Rightarrow> bpy_data \<Rightarrow> nat option \<times> bpy_data" where
  "from_material_id mid s = from_material_id_loop mid 0 (materials s) s"

text \<open>The property \<^verbatim>\<open>material_id\<close> of the wrapper of material \<open>self\<close>.\<close>

definition max_material_id :: "bpy_data \<Rightarrow> int" where
  "max_material_id s = fold (\<lambda>mat max_id. max max_id (material_id (mmd_material mat))) (materials s) (- 1)"

definition get_material_id :: "nat \<Rightarrow> bpy_data \<Rightarrow> error + (int \<times> bpy_data)" where
  "get_material_id self s =
     (if length (materials s) \<le> self then Inl AttributeError
      else
        let mmd_mat = mmd_material (materials s ! self) in
        if material_id mmd_mat < 0 then
          (let max_id = max_material_id s;
               s' = material_update self
                      (\<lambda>mat. mat\<lparr>mmd_material := (mmd_material mat)\<lparr>material_id := max_id + 1\<rparr>\<rparr>) s
           in Inr (material_id (mmd_material (materials s' ! self)), s'))
        else Inr (material_id mmd_mat, s))"

subsection \<open>Images and textures\<close>

definition same_image_file :: "host \<Rightarrow> image option \<Rightarrow> string \<Rightarrow> bool" where
  "same_image_file h an_image filepath =
     (case an_image of
        None \<Rightarrow> False
      | Some img \<Rightarrow>
          if img_source img = ''FILE'' then
            (let user_filepath = abspath h (img_filepath img) in
             if user_filepath = filepath then True
             else (case samefile h user_filepath filepath of Some b \<Rightarrow> b | None \<Rightarrow> False))
          else False)"

definition warning_line :: "string \<Rightarrow> string" where
  "warning_line filepath = ''Cannot create a texture for '' @ filepath @ ''. No such file.''"

text \<open>The loop \<^verbatim>\<open>for i in bpy.data.images\<close> of \<^verbatim>\<open>__load_image\<close>: the first image of the
  store that is the file.\<close>

definition find_image :: "host \<Rightarrow> string \<Rightarrow> bpy_data \<Rightarrow> (img_ref \<times> image) option" where
  "find_image h filepath s = find (\<lambda>(r, i). same_image_file h (Some i) filepath) (images s)"

definition load_image :: "host \<Rightarrow> string \<Rightarrow> bpy_data \<Rightarrow> img_ref \<times> bpy_data" where
  "load_image h filepath s =
     (case find_image h filepath s of
        Some (r, i) \<Rightarrow> (r, s)
      | None \<Rightarrow>
          (case images_load h filepath of
             Some loaded \<Rightarrow> images_add h loaded s
           | None \<Rightarrow>
               (let s1 = s\<lparr>warnings := warnings s @ [warning_line filepath]\<rparr>;
                    (img, s2) = images_new h (basename h filepath) 1 1 s1;
                    s3 = image_update img (\<lambda>i. i\<lparr>img_source := ''FILE''\<rparr>) s2;
                    s4 = image_update img (\<lambda>i. i\<lparr>img_filepath := filepath\<rparr>) s3
                in (img, s4))))"

text \<open>The loop \<^verbatim>\<open>for t in bpy.data.textures\<close> of \<^verbatim>\<open>__load_texture\<close>: the first image
  texture of the store whose image is the file.\<close>

definition find_texture :: "host \<Rightarrow> string \<Rightarrow> bpy_data \<Rightarrow> (tex_ref \<times> texture) option" where
  "find_texture h filepath s =
     find (\<lambda>(r, t). tex_type t = ''IMAGE'' \<and> same_image_file h (image_of s t) filepath) (textures s)"

definition load_texture :: "host \<Rightarrow> string \<Rightarrow> bpy_data \<Rightarrow> tex_ref \<times> bpy_data" where
  "load_texture h filepath s =
     (case find_texture h filepath s of
        Some (r, t) \<Rightarrow> (r, s)
      | None \<Rightarrow>
          (let (tex, s1) = textures_new h (display_name_from_filepath h filepath) ''IMAGE'' s;
               (img, s2) = load_image h filepath s1;
               s3 = texture_update tex (\<lambda>t. t\<lparr>tex_image := Some img\<rparr>) s2
           in (tex, s3)))"

subsection \<open>Slots\<close>

text \<open>Every method starts by reaching its material and one of its slots: a wrapper
  of no material gives an \<^verbatim>\<open>AttributeError\<close>, a slot index outside the slot collection
  an \<^verbatim>\<open>IndexError\<close>, before anything is changed.\<close>

definition reach :: "nat \<Rightarrow> nat \<Rightarrow> bpy_data \<Rightarrow> error option" where
  "reach self idx s =
     (if length (materials s) \<le> self then Some AttributeError
      else if length (texture_slots (materials s ! self)) \<le> idx then Some IndexError
      else None)"

definition create_texture :: "host \<Rightarrow> nat \<Rightarrow> string \<Rightarrow> bpy_data \<Rightarrow> error + bpy_data" where
  "create_texture h self filepath s =
     (case reach self BASE_TEX_SLOT s of
        Some e \<Rightarrow> Inl e
      | None \<Rightarrow>
          (let s1 = slots_create h self BASE_TEX_SLOT s;
               s2 = slot_update self BASE_TEX_SLOT (\<lambda>ts. ts\<lparr>use_map_alpha := True\<rparr>) s1;
               s3 = slot_update self BASE_TEX_SLOT (\<lambda>ts. ts\<lparr>texture_coords := ''UV''\<rparr>) s2;
               s4 = slot_update self BASE_TEX_SLOT (\<lambda>ts. ts\<lparr>blend_type := ''MULTIPLY''\<rparr>) s3;
               (tex, s5) = load_texture h filepath s4
           in Inr (slot_update self BASE_TEX_SLOT (\<lambda>ts. ts\<lparr>slot_texture := Some tex\<rparr>) s5)))"

text \<open>\<^verbatim>\<open>remove_texture\<close>. The users of the texture are counted once the slot is
  cleared, the users of the image once the texture has let go of it and is removed. A
  slot that refers to a texture that the store does not hold gives the host's
  \<^verbatim>\<open>ReferenceError\<close> when the texture is read.\<close>

definition remove_texture :: "nat \<Rightarrow> nat \<Rightarrow> bpy_data \<Rightarrow> error + bpy_data" where
  "remove_texture self index s =
     (case reach self index s of
        Some e \<Rightarrow> Inl e
      | None \<Rightarrow>
          (case texture_slots (materials s ! self) ! index of
             None \<Rightarrow> Inr s
           | Some texture_slot \<Rightarrow>
               (let s1 = slots_clear self index s in
                case slot_texture texture_slot of
                  None \<Rightarrow> Inr s1
                | Some tex \<Rightarrow>
                    (case map_of (textures s1) tex of
                       None \<Rightarrow> Inl ReferenceError
                     | Some t \<Rightarrow>
                         if tex_users s1 tex < 1 then
                           (let img = tex_image t;
                                s2 = texture_update tex (\<lambda>t. t\<lparr>tex_image := None\<rparr>) s1;
                                s3 = textures_remove tex s2
                            in case img of
                                 None \<Rightarrow> Inr s3
                               | Some i \<Rightarrow>
                                   if img_users s3 i < 1 then Inr (images_remove i s3)
                                   else Inr s3)
                         else Inr s1))))"

definition update_sphere_texture_type :: "nat \<Rightarrow> bpy_data \<Rightarrow> error + bpy_data" where
  "update_sphere_texture_type self s =
     (case reach self SPHERE_TEX_SLOT s of
        Some e \<Rightarrow> Inl e
      | None \<Rightarrow>
          (case texture_slots (materials s ! self) ! SPHERE_TEX_SLOT of
             None \<Rightarrow> Inr s
           | Some texture_slot \<Rightarrow>
               (let ty = sphere_texture_type (mmd_material (materials s ! self)) in
                if ty \<notin> {1, 2, 3} then
                  Inr (slot_update self SPHERE_TEX_SLOT (\<lambda>ts. ts\<lparr>slot_use := False\<rparr>) s)
                else
                  (let s1 = slot_update self SPHERE_TEX_SLOT (\<lambda>ts. ts\<lparr>slot_use := True\<rparr>) s
                   in Inr (slot_update self SPHERE_TEX_SLOT
                             (\<lambda>ts. ts\<lparr>blend_type :=
                                [''MULTIPLY'', ''ADD'', ''SUBTRACT''] ! nat (ty - 1)\<rparr>)
                             s1)))))"

text \<open>The chained assignment
  \<^verbatim>\<open>texture_slot.texture.use_alpha = texture_slot.texture.image.use_alpha = False\<close>:
  the texture first, then its image; a texture without an image gives an
  \<^verbatim>\<open>AttributeError\<close> at the second target.\<close>

definition clear_use_alpha :: "tex_ref \<Rightarrow> bpy_data \<Rightarrow> error + bpy_data" where
  "clear_use_alpha tex s =
     (case map_of (textures s) tex of
        None \<Rightarrow> Inl ReferenceError
      | Some t \<Rightarrow>
          (let s1 = texture_update tex (\<lambda>t. t\<lparr>tex_use_alpha := False\<rparr>) s in
           case tex_image t of
             None \<Rightarrow> Inl AttributeError
           | Some i \<Rightarrow>
               (case map_of (images s1) i of
                  None \<Rightarrow> Inl ReferenceError
                | Some x \<Rightarrow> Inr (image_update i (\<lambda>x. x\<lparr>img_use_alpha := False\<rparr>) s1))))"

definition create_sphere_texture :: "host \<Rightarrow> nat \<Rightarrow> string \<Rightarrow> bpy_data \<Rightarrow> error + bpy_data" where
  "create_sphere_texture h self filepath s =
     (case reach self SPHERE_TEX_SLOT s of
        Some e \<Rightarrow> Inl e
      | None \<Rightarrow>
          (let s1 = slots_create h self SPHERE_TEX_SLOT s;
               s2 = slot_update self SPHERE_TEX_SLOT (\<lambda>ts. ts\<lparr>texture_coords := ''NORMAL''\<rparr>) s1;
               (tex, s3) = load_texture h filepath s2;
               s4 = slot_update self SPHERE_TEX_SLOT (\<lambda>ts. ts\<lparr>slot_texture := Some tex\<rparr>) s3
           in case clear_use_alpha tex s4 of
                Inl e \<Rightarrow> Inl e
              | Inr s5 \<Rightarrow> update_sphere_texture_type self s5))"

definition remove_sphere_texture :: "nat \<Rightarrow> bpy_data \<Rightarrow> error + bpy_data" where
  "remove_sphere_texture self s = remove_texture self SPHERE_TEX_SLOT s"

definition create_toon_texture :: "host \<Rightarrow> nat \<Rightarrow> string \<Rightarrow> bpy_data \<Rightarrow> error + bpy_data" where
  "create_toon_texture h self filepath s =
     (case reach self TOON_TEX_SLOT s of
        Some e \<Rightarrow> Inl e
      | None \<Rightarrow>
          (let s1 = slots_create h self TOON_TEX_SLOT s;
               s2 = slot_update self TOON_TEX_SLOT (\<lambda>ts. ts\<lparr>texture_coords := ''NORMAL''\<rparr>) s1;
               s3 = slot_update self TOON_TEX_SLOT (\<lambda>ts. ts\<lparr>blend_type := ''MULTIPLY''\<rparr>) s2;
               (tex, s4) = load_texture h filepath s3;
               s5 = slot_update self TOON_TEX_SLOT (\<lambda>ts. ts\<lparr>slot_texture := Some tex\<rparr>) s4
           in case clear_use_alpha tex s5 of
                Inl e \<Rightarrow> Inl e
              | Inr s6 \<Rightarrow> Inr (texture_update tex (\<lambda>t. t\<lparr>tex_extension := ''EXTEND''\<rparr>) s6)))"

definition remove_toon_texture :: "nat \<Rightarrow> bpy_data \<Rightarrow> error + bpy_data" where
  "remove_toon_texture self s = remove_texture self TOON_TEX_SLOT s"

text \<open>The format \<^verbatim>\<open>'%02d'\<close>: the decimal digits, with a sign when negative, filled
  with zeros on the left up to two characters.\<close>

fun decimal :: "nat \<Rightarrow> string" where
  "decimal n = (if n < 10 then [''0123456789'' ! n] else decimal (n div 10) @ [''0123456789'' ! (n mod 10)])"

declare decimal.simps [simp del]

definition format_02d :: "int \<Rightarrow> string" where
  "format_02d n =
     (let body = (if n < 0 then ''-'' @ decimal (nat (- n)) else decimal (nat n))
      in if length body < 2 then replicate (2 - length body) CHR ''0'' @ body else body)"

definition toon_path :: "host \<Rightarrow> int \<Rightarrow> string" where
  "toon_path h shared =
     path_join h (shared_toon_folder h) (''toon'' @ format_02d (shared + 1) @ ''.bmp'')"

definition update_toon_texture :: "host \<Rightarrow> nat \<Rightarrow> bpy_data \<Rightarrow> error + bpy_data" where
  "update_toon_texture h self s =
     (if length (materials s) \<le> self then Inl AttributeError
      else
        let mmd_mat = mmd_material (materials s ! self) in
        if is_shared_toon_texture mmd_mat then
          create_toon_texture h self (resolve_ncase h (toon_path h (shared_toon_texture mmd_mat))) s
        else if toon_texture mmd_mat \<noteq> '''' then
          create_toon_texture h self (toon_texture mmd_mat) s
        else remove_toon_texture self s)"

subsection \<open>Shadows\<close>

definition update_drop_shadow :: "nat \<Rightarrow> bpy_data \<Rightarrow> error + bpy_data" where
  "update_drop_shadow self s = Inr s"

definition update_self_shadow_map :: "nat \<Rightarrow> bpy_data \<Rightarrow> error + bpy_data" where
  "update_self_shadow_map self s =
     (if length (materials s) \<le> self then Inl AttributeError
      else
        let flag = enabled_self_shadow_map (mmd_material (materials s ! self));
            s1 = material_update self (\<lambda>mat. mat\<lparr>use_cast_buffer_shadows := flag\<rparr>) s
        in case use_cast_shadows (materials s1 ! self) of
             Some old \<Rightarrow> Inr (material_update self (\<lambda>mat. mat\<lparr>use_cast_shadows := Some flag\<rparr>) s1)
           | None \<Rightarrow> Inr s1)"

definition update_self_shadow :: "nat \<Rightarrow> bpy_data \<Rightarrow> error + bpy_data" where
  "update_self_shadow self s =
     (if length (materials s) \<le> self then Inl AttributeError
      else
        let flag = enabled_self_shadow (mmd_material (materials s ! self));
            s1 = material_update self (\<lambda>mat. mat\<lparr>use_shadows := flag\<rparr>) s
        in Inr (material_update self (\<lambda>mat. mat\<lparr>use_transparent_shadows := flag\<rparr>) s1))"

section \<open>The operations of the layer\<close>

text \<open>Every method and property of \<^verbatim>\<open>FnMaterial\<close>, and the store each leaves when it
  returns.\<close>

datatype operation =
    From_material_id int
  | Material_id
  | Create_texture string
  | Remove_texture nat
  | Create_sphere_texture string
  | Update_sphere_texture_type
  | Remove_sphere_texture
  | Create_toon_texture string
  | Update_toon_texture
  | Remove_toon_texture
  | Update_drop_shadow
  | Update_self_shadow_map
  | Update_self_shadow

fun run :: "host \<Rightarrow> nat \<Rightarrow> operation \<Rightarrow> bpy_data \<Rightarrow> error + bpy_data" where
  "run h self (From_material_id mid) s = Inr (snd (from_material_id mid s))"
| "run h self Material_id s =
     (case get_material_id self s of Inl e \<Rightarrow> Inl e | Inr (v, s') \<Rightarrow> Inr s')"
| "run h self (Create_texture filepath) s = create_texture h self filepath s"
| "run h self (Remove_texture index) s = remove_texture self index s"
| "run h self (Create_sphere_texture filepath) s = create_sphere_texture h self filepath s"
| "run h self Update_sphere_texture_type s = update_sphere_texture_type self s"
| "run h self Remove_sphere_texture s = remove_sphere_texture self s"
| "run h self (Create_toon_texture filepath) s = create_toon_texture h self filepath s"
| "run h self Update_toon_texture s = update_toon_texture h self s"
| "run h self Remove_toon_texture s = remove_toon_texture self s"
| "run h self Update_drop_shadow s = update_drop_shadow self s"
| "run h self Update_self_shadow_map s = update_self_shadow_map self s"
| "run h self Update_self_shadow s = update_self_shadow self s"

section \<open>Notions of the statements\<close>

definition slot_at :: "bpy_data \<Rightarrow> nat \<Rightarrow> nat \<Rightarrow> texture_slot option" where
  "slot_at s m idx = texture_slots (materials s ! m) ! idx"

definition stored_ids :: "bpy_data \<Rightarrow> int list" where
  "stored_ids s = map (\<lambda>mat. material_id (mmd_material mat)) (materials s)"

text \<open>At most one material holds any given non-negative id.\<close>

definition unique_ids :: "bpy_data \<Rightarrow> bool" where
  "unique_ids s = distinct (filter (\<lambda>i. 0 \<le> i) (stored_ids s))"

text \<open>A path is resolved when an image filed under it is recognised as the file of
  that path: the host's user path of the image is the path itself, or the file system
  says that both are the same file.\<close>

definition resolved :: "host \<Rightarrow> string \<Rightarrow> bool" where
  "resolved h filepath =
     (abspath h filepath = filepath \<or> samefile h (abspath h filepath) filepath = Some True)"

text \<open>The loader files what it loads as a file image under the path it was given.\<close>

definition loads_as_file :: "host \<Rightarrow> string \<Rightarrow> bool" where
  "loads_as_file h filepath =
     (case images_load h filepath of
        None \<Rightarrow> True
      | Some img \<Rightarrow> img_source img = ''FILE'' \<and> img_filepath img = filepath)"

text \<open>A reference stands for one object of its store.\<close>

definition distinct_refs :: "bpy_data \<Rightarrow> bool" where
  "distinct_refs s = (distinct (map fst (textures s)) \<and> distinct (map fst (images s)))"

text \<open>The placeholder that \<^verbatim>\<open>__load_image\<close> makes for a path that cannot be loaded.\<close>

definition placeholder_image :: "host \<Rightarrow> string \<Rightarrow> image" where
  "placeholder_image h filepath =
     (image_defaults h)
       \<lparr>img_name := basename h filepath, img_size := (1, 1), img_source := ''FILE'',
        img_filepath := filepath\<rparr>"

text \<open>Where the texture \<open>t\<close> with its image \<open>i\<close>, read in the store \<open>s'\<close> after a toon
  texture was created for a path in the store \<open>s\<close>, comes from: it is the texture that
  \<open>s\<close> had for the path, changed in \<open>use_alpha\<close> and the extension only; or it is new,
  named after the path, and its image is the image that \<open>s\<close> had for the path, or a new
  image that the host loaded from the path, or a new placeholder filed under the path
  with one more line in the log.\<close>

definition texture_from_path ::
  "host \<Rightarrow> string \<Rightarrow> bpy_data \<Rightarrow> bpy_data \<Rightarrow> tex_ref \<Rightarrow> texture \<Rightarrow> img_ref \<Rightarrow> image \<Rightarrow> bool" where
  "texture_from_path h filepath s s' t tex i img =
     (case find_texture h filepath s of
        Some (r, x) \<Rightarrow>
          t = r \<and> tex = x\<lparr>tex_use_alpha := False, tex_extension := ''EXTEND''\<rparr>
          \<and> map_option (\<lambda>y. y\<lparr>img_use_alpha := False\<rparr>) (map_of (images s) i) = Some img
      | None \<Rightarrow>
          t \<notin> set (map fst (textures s))
          \<and> tex_name tex = display_name_from_filepath h filepath
          \<and> (case find_image h filepath s of
                Some (r, y) \<Rightarrow> i = r \<and> img = y\<lparr>img_use_alpha := False\<rparr>
              | None \<Rightarrow>
                  i \<notin> set (map fst (images s))
                  \<and> (case images_load h filepath of
                        Some loaded \<Rightarrow> img = loaded\<lparr>img_use_alpha := False\<rparr>
                      | None \<Rightarrow>
                          img = (placeholder_image h filepath)\<lparr>img_use_alpha := False\<rparr>
                          \<and> warnings s' = warnings s @ [warning_line filepath])))"

text \<open>The result of a call has created the toon texture of the material from the
  path: the call returned, and in the store it returned the TOON slot of the material
  maps by normals, blends by MULTIPLY and holds a texture of the store, an image texture
  with \<open>use_alpha\<close> off and the extension \<open>EXTEND\<close>, whose image is in the store with
  \<open>use_alpha\<close> off; and the texture comes from the path.\<close>

definition toon_created :: "host \<Rightarrow> nat \<Rightarrow> string \<Rightarrow> bpy_data \<Rightarrow> error + bpy_data \<Rightarrow> bool" where
  "toon_created h self filepath s result =
     (case result of
        Inl e \<Rightarrow> False
      | Inr s' \<Rightarrow>
          (case slot_at s' self TOON_TEX_SLOT of
             None \<Rightarrow> False
           | Some slot \<Rightarrow>
               texture_coords slot = ''NORMAL'' \<and> blend_type slot = ''MULTIPLY''
               \<and> (case slot_texture slot of
                     None \<Rightarrow> False
                   | Some t \<Rightarrow>
                       (case map_of (textures s') t of
                          None \<Rightarrow> False
                        | Some tex \<Rightarrow>
                            tex_type tex = ''IMAGE'' \<and> \<not> tex_use_alpha tex
                            \<and> tex_extension tex = ''EXTEND''
                            \<and> (case tex_image tex of
                                  None \<Rightarrow> False
                                | Some i \<Rightarrow>
                                    (case map_of (images s') i of
                                       None \<Rightarrow> False
                                     | Some img \<Rightarrow>
                                         \<not> img_use_alpha img
                                         \<and> texture_from_path h filepath s s' t tex i img))))))"

text \<open>The result of a call has removed the toon slot of the material: the call
  returned, and in the store it returned the TOON slot of the material is empty.\<close>

definition toon_removed :: "nat \<Rightarrow> error + bpy_data \<Rightarrow> bool" where
  "toon_removed self result =
     (case result of Inl e \<Rightarrow> False | Inr s' \<Rightarrow> slot_at s' self TOON_TEX_SLOT = None)"

text \<open>The texture that a slot refers to, if any, is in the store.\<close>

definition slot_texture_in_store :: "bpy_data \<Rightarrow> nat \<Rightarrow> nat \<Rightarrow> bool" where
  "slot_texture_in_store s m idx =
     (case slot_at s m idx of
        None \<Rightarrow> True
      | Some slot \<Rightarrow>
          (case slot_texture slot of None \<Rightarrow> True | Some t \<Rightarrow> t \<in> set (map fst (textures s))))"

section \<open>An example scene\<close>

definition example_image :: "string \<Rightarrow> image" where
  "example_image p =
     \<lparr>img_name = p, img_source = ''FILE'', img_filepath = p, img_use_alpha = True,
      img_size = (4, 4)\<rparr>"

definition example_texture :: "string \<Rightarrow> img_ref option \<Rightarrow> texture" where
  "example_texture n i =
     \<lparr>tex_name = n, tex_type = ''IMAGE'', tex_image = i, tex_use_alpha = True,
      tex_extension = ''REPEAT''\<rparr>"

definition example_slot :: "tex_ref option \<Rightarrow> texture_slot" where
  "example_slot t =
     \<lparr>use_map_alpha = False, texture_coords = ''ORCO'', blend_type = ''MIX'', slot_use = True,
      slot_texture = t\<rparr>"

definition example_properties :: "int \<Rightarrow> mmd_material" where
  "example_properties i =
     \<lparr>material_id = i, is_shared_toon_texture = False, shared_toon_texture = 2,
      toon_texture = [], enabled_self_shadow_map = True, enabled_self_shadow = False,
      sphere_texture_type = 2\<rparr>"

definition example_material :: "int \<Rightarrow> texture_slot option list \<Rightarrow> material" where
  "example_material i slots =
     \<lparr>mmd_material = example_properties i, texture_slots = slots,
      use_cast_buffer_shadows = False, use_cast_shadows = Some False, use_shadows = True,
      use_transparent_shadows = True\<rparr>"

text \<open>A host that knows one file, \<^verbatim>\<open>a.png\<close>, keeps paths as they are, and files a new
  datablock in front of the existing ones.\<close>

definition example_host :: host where
  "example_host =
     \<lparr>abspath = (\<lambda>p. p), samefile = (\<lambda>a b. None),
      images_load = (\<lambda>p. if p = ''a.png'' then Some (example_image p) else None),
      basename = (\<lambda>p. p), display_name_from_filepath = (\<lambda>p. p),
      resolve_ncase = (\<lambda>p. p), path_join = (\<lambda>a b. a @ ''/'' @ b),
      shared_toon_folder = ''toons'',
      image_defaults =
        \<lparr>img_name = [], img_source = ''GENERATED'', img_filepath = [], img_use_alpha = True,
         img_size = (0, 0)\<rparr>,
      texture_defaults =
        \<lparr>tex_name = [], tex_type = ''NONE'', tex_image = None, tex_use_alpha = True,
         tex_extension = ''REPEAT''\<rparr>,
      slot_defaults = example_slot None,
      new_index = (\<lambda>n ns. 0)\<rparr>"

text \<open>Two materials; the first has nothing in its slots, the second holds texture 7
  (of image 3) in its toon and sphere slots.\<close>

definition example_scene :: bpy_data where
  "example_scene =
     \<lparr>materials =
        [example_material (- 1) [None, None, None],
         example_material 4 [None, Some (example_slot (Some 7)), Some (example_slot (Some 7))]],
      textures = [(7, example_texture ''b.png'' (Some 3))],
      images = [(3, example_image ''b.png'')],
      warnings = []\<rparr>"

text \<open>The same scene on a host whose materials have no attribute
  \<^verbatim>\<open>use_cast_shadows\<close>.\<close>

definition legacy_scene :: bpy_data where
  "legacy_scene =
     example_scene\<lparr>materials := map (\<lambda>mat. mat\<lparr>use_cast_shadows := None\<rparr>) (materials example_scene)\<rparr>"

text \<open>A scene of one material whose id is unassigned and is not the usual \<open>- 1\<close>.\<close>

definition lone_scene :: bpy_data where
  "lone_scene =
     \<lparr>materials = [example_material (- 2) [None, None, None]], textures = [], images = [],
      warnings = []\<rparr>"

text \<open>The example scene once its first material has a BASE slot with a texture: a
  new texture 8 on a new placeholder image 4 for the missing file \<^verbatim>\<open>c.png\<close>, and the
  existing texture 7 for \<^verbatim>\<open>b.png\<close>.\<close>

definition base_slot :: "tex_ref \<Rightarrow> texture_slot" where
  "base_slot t =
     \<lparr>use_map_alpha = True, texture_coords = ''UV'', blend_type = ''MULTIPLY'', slot_use = True,
      slot_texture = Some t\<rparr>"

definition created_scene :: bpy_data where
  "created_scene =
     \<lparr>materials =
        [example_material (- 1) [Some (base_slot 8), None, None],
         example_material 4 [None, Some (example_slot (Some 7)), Some (example_slot (Some 7))]],
      textures = [(8, example_texture ''c.png'' (Some 4)), (7, example_texture ''b.png'' (Some 3))],
      images = [(4, (example_image ''c.png'')\<lparr>img_size := (1, 1)\<rparr>), (3, example_image ''b.png'')],
      warnings = [''Cannot create a texture for c.png. No such file.'']\<rparr>"

definition shared_scene :: bpy_data where
  "shared_scene =
     example_scene
       \<lparr>materials :=
          [example_material (- 1) [Some (base_slot 7), None, None],
           example_material 4 [None, Some (example_slot (Some 7)), Some (example_slot (Some 7))]]\<rparr>"

text \<open>The example scene with the sphere texture of its materials switched off.\<close>

definition off_scene :: bpy_data where
  "off_scene =
     example_scene
       \<lparr>materials :=
          map (\<lambda>mat. mat\<lparr>mmd_material := (mmd_material mat)\<lparr>sphere_texture_type := 0\<rparr>\<rparr>)
            (materials example_scene)\<rparr>"

text \<open>A host whose loader loads every file and files it as a movie, not as a file
  image.\<close>

definition movie_host :: host where
  "movie_host =
     example_host\<lparr>images_load := (\<lambda>p. Some ((example_image p)\<lparr>img_source := ''MOVIE''\<rparr>))\<rparr>"

text \<open>The example scene with the shared toon texture of index 2 chosen for its first
  material, and the toon texture \<^verbatim>\<open>b.png\<close> for its second.\<close>

definition toon_scene :: bpy_data where
  "toon_scene =
     example_scene
       \<lparr>materials :=
          [(example_material (- 1) [None, None, None])
             \<lparr>mmd_material := (example_properties (- 1))\<lparr>is_shared_toon_texture := True\<rparr>\<rparr>,
           (example_material 4 [None, Some (example_slot (Some 7)), Some (example_slot (Some 7))])
             \<lparr>mmd_material := (example_properties 4)\<lparr>toon_texture := ''b.png''\<rparr>\<rparr>]\<rparr>"

section \<open>Slots: auxiliary facts\<close>

lemma reach_None:
  "reach self idx s = None \<longleftrightarrow>
     self < length (materials s) \<and> idx < length (texture_slots (materials s ! self))"
  by (auto simp: reach_def)

lemma slot_update_Some:
  "slot_at s m idx = Some ts \<Longrightarrow> slot_update m idx f s = slot_set m idx (Some (f ts)) s"
  by (simp add: slot_update_def slot_at_def)

lemma slot_set_twice:
  "slot_set m idx v (slot_set m idx w s) = slot_set m idx v s"
  by (cases "m < length (materials s)")
     (simp_all add: slot_set_def material_update_def list_update_beyond)

lemma slot_at_slot_set:
  "reach m idx s = None \<Longrightarrow> slot_at (slot_set m idx v s) m idx = v"
  by (simp add: reach_None slot_set_def material_update_def slot_at_def)

lemma slot_update_slot_set:
  "reach m idx s = None \<Longrightarrow>
   slot_update m idx f (slot_set m idx (Some ts) s) = slot_set m idx (Some (f ts)) s"
  by (simp add: slot_update_Some slot_at_slot_set slot_set_twice)

section \<open>Shadows\<close>

section \<open>Finding a material by its id\<close>

lemma from_material_id_loop_store:
  "snd (from_material_id_loop mid k mats s) = s"
  by (induction mats arbitrary: k) simp_all

lemma from_material_id_loop_result:
  "fst (from_material_id_loop mid k mats s) =
     map_option fst (find (\<lambda>(i, mat). material_id (mmd_material mat) = mid) (enumerate k mats))"
  by (induction mats arbitrary: k) simp_all

text \<open>
  C10. \<open>from_material_id\<close> leaves the store as it found it, whatever the id: it
  compares the stored field of each material, so a material whose id is negative keeps
  it. It returns the first material of the store with that stored id.
\<close>

theorem from_material_id_pure:
  "snd (from_material_id mid s) = s
   \<and> stored_ids (snd (from_material_id mid s)) = stored_ids s
   \<and> fst (from_material_id mid s) =
       map_option fst
         (find (\<lambda>(i, mat). material_id (mmd_material mat) = mid) (enumerate 0 (materials s)))"
  by (simp add: from_material_id_def from_material_id_loop_store from_material_id_loop_result)

section \<open>Identity\<close>

lemma fold_max_Max:
  "fold (\<lambda>mat max_id. max max_id (f mat)) mats (a::int) = Max (insert a (f ` set mats))"
proof (induction mats arbitrary: a)
  case Nil
  show ?case by simp
next
  case (Cons m mats)
  have "Max (insert (max a (f m)) (f ` set mats)) = Max (insert a (insert (f m) (f ` set mats)))"
    by (cases "f ` set mats = {}") (simp_all add: max.assoc)
  with Cons show ?case by simp
qed

lemma max_material_id_Max:
  "max_material_id s = Max (insert (- 1) (set (stored_ids s)))"
  by (simp add: max_material_id_def stored_ids_def fold_max_Max)

lemma stored_ids_nth:
  "self < length (materials s) \<Longrightarrow>
   stored_ids s ! self = material_id (mmd_material (materials s ! self))"
  by (simp add: stored_ids_def)

lemma stored_ids_assign:
  "stored_ids (material_update self
      (\<lambda>mat. mat\<lparr>mmd_material := (mmd_material mat)\<lparr>material_id := v\<rparr>\<rparr>) s) =
   (stored_ids s)[self := v]"
  by (simp add: stored_ids_def material_update_def map_update)

lemma max_material_id_bounds:
  "- 1 \<le> max_material_id s" "i \<in> set (stored_ids s) \<Longrightarrow> i \<le> max_material_id s"
  by (simp_all add: max_material_id_Max)

text \<open>
  C5, as the code has it. Reading \<open>material_id\<close> of a material whose stored id is
  negative assigns it one more than the greatest of \<open>- 1\<close> and the stored ids of all
  materials, and returns that value; a second read returns the same value and changes
  nothing. Reading a stored id that is not negative returns it and changes nothing.
\<close>

theorem get_material_id_lazy:
  assumes "self < length (materials s)"
  shows "(stored_ids s ! self < 0 \<longrightarrow>
            (let v = Max (insert (- 1) (set (stored_ids s))) + 1;
                 s' = material_update self
                        (\<lambda>mat. mat\<lparr>mmd_material := (mmd_material mat)\<lparr>material_id := v\<rparr>\<rparr>) s
             in get_material_id self s = Inr (v, s') \<and> get_material_id self s' = Inr (v, s')))
       \<and> (0 \<le> stored_ids s ! self \<longrightarrow> get_material_id self s = Inr (stored_ids s ! self, s))"
proof (intro conjI impI)
  assume neg: "stored_ids s ! self < 0"
  define v where "v = Max (insert (- 1) (set (stored_ids s))) + 1"
  define s' where "s' = material_update self
                        (\<lambda>mat. mat\<lparr>mmd_material := (mmd_material mat)\<lparr>material_id := v\<rparr>\<rparr>) s"
  have len: "self < length (materials s')"
    using assms by (simp add: s'_def material_update_def)
  have new: "material_id (mmd_material (materials s' ! self)) = v"
    using assms by (simp add: s'_def material_update_def)
  have "- 1 \<le> Max (insert (- 1) (set (stored_ids s)))"
    by (rule Max_ge) simp_all
  then have "0 \<le> v"
    unfolding v_def by linarith
  then have second: "get_material_id self s' = Inr (v, s')"
    using len new by (simp add: get_material_id_def)
  have first: "get_material_id self s = Inr (v, s')"
    using assms neg new
    by (simp add: get_material_id_def stored_ids_nth Let_def max_material_id_Max
          s'_def [symmetric] v_def [symmetric])
  show "let v = Max (insert (- 1) (set (stored_ids s))) + 1;
            s' = material_update self
                   (\<lambda>mat. mat\<lparr>mmd_material := (mmd_material mat)\<lparr>material_id := v\<rparr>\<rparr>) s
        in get_material_id self s = Inr (v, s') \<and> get_material_id self s' = Inr (v, s')"
    using first second by (simp add: Let_def v_def s'_def)
next
  assume "0 \<le> stored_ids s ! self"
  then show "get_material_id self s = Inr (stored_ids s ! self, s)"
    using assms by (simp add: get_material_id_def stored_ids_nth)
qed

lemma lone_scene_ids: "stored_ids lone_scene = [- 2]"
  by (simp add: stored_ids_def lone_scene_def example_material_def example_properties_def)

lemma example_scene_ids: "stored_ids example_scene = [- 1, 4]"
  by (simp add: stored_ids_def example_scene_def example_material_def example_properties_def)

theorem get_material_id_lazy_witness:
  "(0::nat) < length (materials example_scene)
   \<and> stored_ids example_scene ! 0 < 0
   \<and> get_material_id 0 example_scene =
       Inr (5, material_update 0
                 (\<lambda>mat. mat\<lparr>mmd_material := (mmd_material mat)\<lparr>material_id := 5\<rparr>\<rparr>) example_scene)
   \<and> get_material_id 0
        (material_update 0
           (\<lambda>mat. mat\<lparr>mmd_material := (mmd_material mat)\<lparr>material_id := 5\<rparr>\<rparr>) example_scene) =
       Inr (5, material_update 0
                 (\<lambda>mat. mat\<lparr>mmd_material := (mmd_material mat)\<lparr>material_id := 5\<rparr>\<rparr>) example_scene)
   \<and> (1::nat) < length (materials example_scene)
   \<and> 0 \<le> stored_ids example_scene ! 1
   \<and> get_material_id 1 example_scene = Inr (4, example_scene)"
proof -
  have l: "(0::nat) < length (materials example_scene)" "(1::nat) < length (materials example_scene)"
    by (simp_all add: example_scene_def)
  have n: "stored_ids example_scene ! 0 < 0" and p: "0 \<le> stored_ids example_scene ! 1"
    and q: "stored_ids example_scene ! 1 = 4"
    by (simp_all add: example_scene_ids)
  have m: "Max (insert (- 1) (set (stored_ids example_scene))) + 1 = 5"
    by (simp add: example_scene_ids)
  show ?thesis
    using get_material_id_lazy [OF l(1), THEN conjunct1, rule_format, OF n]
      get_material_id_lazy [OF l(2), THEN conjunct2, rule_format, OF p] l n p q
    by (simp add: Let_def m)
qed

text \<open>
  C5 as stated fails where every stored id is below \<open>- 1\<close>: the only material of
  \<open>lone_scene\<close> has the id \<open>- 2\<close>, the greatest stored id plus one is \<open>- 1\<close>, and the
  read assigns and returns 0.
\<close>

theorem get_material_id_not_max_plus_one:
  "stored_ids lone_scene = [- 2]
   \<and> stored_ids lone_scene ! 0 < 0
   \<and> Max (set (stored_ids lone_scene)) + 1 = - 1
   \<and> get_material_id 0 lone_scene =
       Inr (0, material_update 0
                 (\<lambda>mat. mat\<lparr>mmd_material := (mmd_material mat)\<lparr>material_id := 0\<rparr>\<rparr>) lone_scene)"
proof -
  have "get_material_id 0 lone_scene =
       Inr (0, material_update 0
                 (\<lambda>mat. mat\<lparr>mmd_material := (mmd_material mat)\<lparr>material_id := 0\<rparr>\<rparr>) lone_scene)"
    by (simp add: get_material_id_def max_material_id_def material_update_def lone_scene_def
          example_material_def example_properties_def Let_def)
  then show ?thesis by (simp add: lone_scene_ids)
qed

section \<open>What the operations leave alone\<close>

lemma materials_image_update [simp]: "materials (image_update i f s) = materials s"
  by (simp add: image_update_def)

lemma materials_texture_update [simp]: "materials (texture_update t f s) = materials s"
  by (simp add: texture_update_def)

lemma materials_textures_remove [simp]: "materials (textures_remove t s) = materials s"
  by (simp add: textures_remove_def)

lemma materials_images_remove [simp]: "materials (images_remove i s) = materials s"
  by (simp add: images_remove_def)

lemma materials_images_add [simp]: "materials (snd (images_add h img s)) = materials s"
  by (simp add: images_add_def Let_def)

lemma materials_images_new [simp]: "materials (snd (images_new h n w ht s)) = materials s"
  by (simp add: images_new_def)

lemma materials_textures_new [simp]: "materials (snd (textures_new h n ty s)) = materials s"
  by (simp add: textures_new_def Let_def)

lemma materials_load_image [simp]: "materials (snd (load_image h p s)) = materials s"
  by (simp add: load_image_def Let_def case_prod_beta split: option.splits)

lemma materials_load_texture [simp]: "materials (snd (load_texture h p s)) = materials s"
  by (simp add: load_texture_def Let_def case_prod_beta split: option.splits)

lemma stored_ids_material_update:
  assumes "\<And>mat. mmd_material (f mat) = mmd_material mat"
  shows "stored_ids (material_update m f s) = stored_ids s"
proof (cases "m < length (materials s)")
  case True
  then show ?thesis
    by (simp add: stored_ids_def material_update_def map_update assms list_update_same_conv)
next
  case False
  then show ?thesis
    by (simp add: stored_ids_def material_update_def list_update_beyond)
qed

lemma stored_ids_cong: "materials s' = materials s \<Longrightarrow> stored_ids s' = stored_ids s"
  by (simp add: stored_ids_def)

lemma stored_ids_slot_set [simp]: "stored_ids (slot_set m idx v s) = stored_ids s"
  by (simp add: slot_set_def stored_ids_material_update)

lemma stored_ids_slot_update [simp]: "stored_ids (slot_update m idx f s) = stored_ids s"
  by (simp add: slot_update_def)

lemma stored_ids_slots_create [simp]: "stored_ids (slots_create h m idx s) = stored_ids s"
  by (simp add: slots_create_def)

lemma stored_ids_slots_clear [simp]: "stored_ids (slots_clear m idx s) = stored_ids s"
  by (simp add: slots_clear_def)

lemma stored_ids_load_texture [simp]: "stored_ids (snd (load_texture h p s)) = stored_ids s"
  by (rule stored_ids_cong) simp

lemma stored_ids_texture_update [simp]: "stored_ids (texture_update t f s) = stored_ids s"
  by (rule stored_ids_cong) simp

lemma stored_ids_image_update [simp]: "stored_ids (image_update t f s) = stored_ids s"
  by (rule stored_ids_cong) simp

lemma stored_ids_textures_remove [simp]: "stored_ids (textures_remove t s) = stored_ids s"
  by (rule stored_ids_cong) simp

lemma stored_ids_images_remove [simp]: "stored_ids (images_remove t s) = stored_ids s"
  by (rule stored_ids_cong) simp

lemma stored_ids_create_texture:
  "create_texture h self p s = Inr s' \<Longrightarrow> stored_ids s' = stored_ids s"
  by (auto simp: create_texture_def Let_def case_prod_beta split: option.splits)

lemma stored_ids_remove_texture:
  "remove_texture self idx s = Inr s' \<Longrightarrow> stored_ids s' = stored_ids s"
  by (auto simp: remove_texture_def Let_def split: option.splits if_splits)

lemma stored_ids_update_sphere_texture_type:
  "update_sphere_texture_type self s = Inr s' \<Longrightarrow> stored_ids s' = stored_ids s"
  by (auto simp: update_sphere_texture_type_def Let_def split: option.splits if_splits)

lemma stored_ids_clear_use_alpha:
  "clear_use_alpha t s = Inr s' \<Longrightarrow> stored_ids s' = stored_ids s"
  by (auto simp: clear_use_alpha_def Let_def split: option.splits)

lemma stored_ids_create_sphere_texture:
  "create_sphere_texture h self p s = Inr s' \<Longrightarrow> stored_ids s' = stored_ids s"
  by (auto simp: create_sphere_texture_def Let_def case_prod_beta
        split: option.splits sum.splits
        dest!: stored_ids_clear_use_alpha stored_ids_update_sphere_texture_type)

lemma stored_ids_create_toon_texture:
  "create_toon_texture h self p s = Inr s' \<Longrightarrow> stored_ids s' = stored_ids s"
  by (auto simp: create_toon_texture_def Let_def case_prod_beta
        split: option.splits sum.splits dest!: stored_ids_clear_use_alpha)

lemma stored_ids_update_toon_texture:
  "update_toon_texture h self s = Inr s' \<Longrightarrow> stored_ids s' = stored_ids s"
  by (auto simp: update_toon_texture_def remove_toon_texture_def Let_def split: if_splits
        dest: stored_ids_create_toon_texture stored_ids_remove_texture)

lemma stored_ids_update_self_shadow_map:
  "update_self_shadow_map self s = Inr s' \<Longrightarrow> stored_ids s' = stored_ids s"
  by (auto simp: update_self_shadow_map_def Let_def stored_ids_material_update
        split: if_splits option.splits)

lemma stored_ids_update_self_shadow:
  "update_self_shadow self s = Inr s' \<Longrightarrow> stored_ids s' = stored_ids s"
  by (auto simp: update_self_shadow_def Let_def stored_ids_material_update split: if_splits)

lemma filter_update_in:
  assumes "i < length xs"
  shows "filter P (xs[i := v]) = filter P (take i xs) @ filter P [v] @ filter P (drop (Suc i) xs)"
  using assms by (simp add: upd_conv_take_nth_drop)

lemma filter_skip:
  assumes "i < length xs" "\<not> P (xs ! i)"
  shows "filter P xs = filter P (take i xs) @ filter P (drop (Suc i) xs)"
proof -
  have "filter P xs = filter P (take i xs @ xs ! i # drop (Suc i) xs)"
    using assms(1) by (simp add: id_take_nth_drop [symmetric])
  then show ?thesis
    using assms(2) by simp
qed

lemma distinct_filter_update:
  assumes "distinct (filter P xs)" "i < length xs" "\<not> P (xs ! i)" "v \<notin> set xs"
  shows "distinct (filter P (xs[i := v]))"
proof -
  have "v \<notin> set (take i xs)" "v \<notin> set (drop (Suc i) xs)"
    using assms(4) by (auto dest: in_set_takeD in_set_dropD)
  moreover have "distinct (filter P (take i xs) @ filter P (drop (Suc i) xs))"
    using assms(1) by (simp add: filter_skip [where P = P and xs = xs and i = i, OF assms(2,3), symmetric])
  ultimately show ?thesis
    by (auto simp: filter_update_in [where P = P and xs = xs and i = i, OF assms(2)])
qed

lemma material_update_nth:
  "self < length (materials s) \<Longrightarrow> materials (material_update self f s) ! self = f (materials s ! self)"
  by (simp add: material_update_def)

lemma max_material_id_above:
  "i \<in> set (stored_ids s) \<Longrightarrow> i < max_material_id s + 1"
  using max_material_id_bounds(2) [of i s] by simp

lemma get_material_id_Inr:
  assumes "get_material_id self s = Inr (v, s')"
  shows "self < length (materials s)
    \<and> (stored_ids s ! self < 0 \<longrightarrow>
          v = max_material_id s + 1 \<and> stored_ids s' = (stored_ids s)[self := v])
    \<and> (0 \<le> stored_ids s ! self \<longrightarrow> s' = s)"
proof -
  have l: "self < length (materials s)"
    using assms by (auto simp: get_material_id_def split: if_splits)
  show ?thesis
    using assms l
    by (auto simp: get_material_id_def Let_def stored_ids_nth stored_ids_assign
          material_update_nth split: if_splits)
qed

text \<open>
  C6. The predicate \<open>unique_ids\<close> (at most one material holds any given id that is
  not negative) holds after every operation of the layer that holds before it. The
  assignment made by reading \<open>material_id\<close> of a material with a negative stored id
  gives an id above every id stored in the scene.
\<close>

theorem unique_ids_invariant:
  assumes "unique_ids s" and "run h self operation s = Inr s'"
  shows "unique_ids s'
    \<and> (\<forall>v s1. stored_ids s ! self < 0 \<and> get_material_id self s = Inr (v, s1) \<longrightarrow>
          (\<forall>i \<in> set (stored_ids s). i < v))"
proof
  show "unique_ids s'"
  proof (cases operation)
    case Material_id
    then obtain v where g: "get_material_id self s = Inr (v, s')"
      using assms(2) by (auto split: sum.splits)
    note f = get_material_id_Inr [OF g]
    show ?thesis
    proof (cases "stored_ids s ! self < 0")
      case True
      with f have v: "v = max_material_id s + 1" and u: "stored_ids s' = (stored_ids s)[self := v]"
        by simp_all
      have "v \<notin> set (stored_ids s)"
        using max_material_id_above [of v s] v by auto
      moreover have "self < length (stored_ids s)"
        using f by (simp add: stored_ids_def)
      ultimately show ?thesis
        using assms(1) True unfolding unique_ids_def u
        by (intro distinct_filter_update) simp_all
    next
      case False
      with f assms(1) show ?thesis by simp
    qed
  next
    case (From_material_id mid)
    with assms show ?thesis by (simp add: from_material_id_def from_material_id_loop_store)
  next
    case (Create_texture p)
    with assms show ?thesis by (auto simp: unique_ids_def dest: stored_ids_create_texture)
  next
    case (Remove_texture idx)
    with assms show ?thesis by (auto simp: unique_ids_def dest: stored_ids_remove_texture)
  next
    case (Create_sphere_texture p)
    with assms show ?thesis by (auto simp: unique_ids_def dest: stored_ids_create_sphere_texture)
  next
    case Update_sphere_texture_type
    with assms show ?thesis
      by (auto simp: unique_ids_def dest: stored_ids_update_sphere_texture_type)
  next
    case Remove_sphere_texture
    with assms show ?thesis
      by (auto simp: unique_ids_def remove_sphere_texture_def dest: stored_ids_remove_texture)
  next
    case (Create_toon_texture p)
    with assms show ?thesis by (auto simp: unique_ids_def dest: stored_ids_create_toon_texture)
  next
    case Update_toon_texture
    with assms show ?thesis by (auto simp: unique_ids_def dest: stored_ids_update_toon_texture)
  next
    case Remove_toon_texture
    with assms show ?thesis
      by (auto simp: unique_ids_def remove_toon_texture_def dest: stored_ids_remove_texture)
  next
    case Update_drop_shadow
    with assms show ?thesis by (simp add: update_drop_shadow_def)
  next
    case Update_self_shadow_map
    with assms show ?thesis by (auto simp: unique_ids_def dest: stored_ids_update_self_shadow_map)
  next
    case Update_self_shadow
    with assms show ?thesis by (auto simp: unique_ids_def dest: stored_ids_update_self_shadow)
  qed
next
  show "\<forall>v s1. stored_ids s ! self < 0 \<and> get_material_id self s = Inr (v, s1) \<longrightarrow>
          (\<forall>i \<in> set (stored_ids s). i < v)"
    using get_material_id_Inr max_material_id_above by blast
qed

lemma example_get_material_id:
  "get_material_id 0 example_scene =
     Inr (5, material_update 0
               (\<lambda>mat. mat\<lparr>mmd_material := (mmd_material mat)\<lparr>material_id := 5\<rparr>\<rparr>) example_scene)"
  by (simp add: get_material_id_def max_material_id_def material_update_def example_scene_def
        example_material_def example_properties_def Let_def)

theorem unique_ids_invariant_witness:
  "unique_ids example_scene
   \<and> run example_host 0 Material_id example_scene =
       Inr (material_update 0
             (\<lambda>mat. mat\<lparr>mmd_material := (mmd_material mat)\<lparr>material_id := 5\<rparr>\<rparr>) example_scene)
   \<and> unique_ids (material_update 0
             (\<lambda>mat. mat\<lparr>mmd_material := (mmd_material mat)\<lparr>material_id := 5\<rparr>\<rparr>) example_scene)
   \<and> stored_ids example_scene = [- 1, 4]
   \<and> list_all (\<lambda>i. i < 5) (stored_ids example_scene)"
proof -
  have u: "unique_ids example_scene"
    by (simp add: unique_ids_def example_scene_ids)
  have r: "run example_host 0 Material_id example_scene =
       Inr (material_update 0
             (\<lambda>mat. mat\<lparr>mmd_material := (mmd_material mat)\<lparr>material_id := 5\<rparr>\<rparr>) example_scene)"
    by (simp add: example_get_material_id)
  have n: "stored_ids example_scene ! 0 < 0"
    by (simp add: example_scene_ids)
  note inv = unique_ids_invariant [OF u r]
  from inv have a: "unique_ids (material_update 0
             (\<lambda>mat. mat\<lparr>mmd_material := (mmd_material mat)\<lparr>material_id := 5\<rparr>\<rparr>) example_scene)"
    by (rule conjunct1)
  from inv n example_get_material_id have "\<forall>i \<in> set (stored_ids example_scene). i < 5"
    by blast
  then have b: "list_all (\<lambda>i. i < 5) (stored_ids example_scene)"
    by (simp add: list_all_iff)
  show ?thesis
    using u r a b by (simp add: example_scene_ids)
qed

section \<open>Toon textures\<close>

lemma decimal_digit: "n < 10 \<Longrightarrow> decimal n = [''0123456789'' ! n]"
  by (simp add: decimal.simps)

lemma decimal_two_digits:
  "10 \<le> n \<Longrightarrow> n < 100 \<Longrightarrow>
   decimal n = [''0123456789'' ! (n div 10), ''0123456789'' ! (n mod 10)]"
  by (subst decimal.simps) (simp add: decimal_digit)

section \<open>Stores: auxiliary facts\<close>

lemma fold_max_ge: "(a::nat) \<le> fold max rs a"
  by (induction rs arbitrary: a) (auto intro: order_trans [OF max.cobounded2])

lemma fold_max_mem: "(x::nat) \<in> set rs \<Longrightarrow> x \<le> fold max rs a"
proof (induction rs arbitrary: a)
  case Nil
  then show ?case by simp
next
  case (Cons r rs)
  show ?case
  proof (cases "x = r")
    case True
    have "r \<le> max r a" by simp
    also have "\<dots> \<le> fold max rs (max r a)" by (rule fold_max_ge)
    finally show ?thesis using True by simp
  next
    case False
    with Cons show ?thesis by simp
  qed
qed

lemma fresh_notin: "fresh rs \<notin> set rs"
  using fold_max_mem [of "fresh rs" rs 0] by (auto simp: fresh_def)

lemma fresh_notin_append: "fresh (rs @ qs) \<notin> set rs" "fresh (rs @ qs) \<notin> set qs"
  using fresh_notin [of "rs @ qs"] by auto

lemma set_insert_at [simp]: "set (insert_at n x xs) = insert x (set xs)"
proof -
  have "set (take n xs) \<union> set (drop n xs) = set xs"
    by (metis append_take_drop_id set_append)
  then show ?thesis by (auto simp: insert_at_def)
qed

lemma find_append:
  "find P (xs @ ys) = (case find P xs of None \<Rightarrow> find P ys | Some x \<Rightarrow> Some x)"
  by (induction xs) simp_all

lemma find_insert_at:
  "find P xs = None \<Longrightarrow> find P (insert_at n x xs) = (if P x then Some x else None)"
proof -
  assume n: "find P xs = None"
  then have a: "\<forall>y \<in> set xs. \<not> P y" by (simp add: find_None_iff)
  have "find P (take n xs) = None"
    using a by (auto simp: find_None_iff dest: in_set_takeD)
  moreover have "find P (drop n xs) = None"
    using a by (auto simp: find_None_iff dest: in_set_dropD)
  ultimately show ?thesis
    by (simp add: insert_at_def find_append)
qed

lemma map_insert_at: "map f (insert_at n x xs) = insert_at n (f x) (map f xs)"
  by (simp add: insert_at_def take_map drop_map)

lemma update_insert_at_new:
  assumes "r \<notin> fst ` set xs"
  shows "map (\<lambda>(k, x). if k = r then (k, f x) else (k, x)) (insert_at n (r, v) xs) =
         insert_at n (r, f v) xs"
proof -
  have "map (\<lambda>(k, x). if k = r then (k, f x) else (k, x)) xs = xs"
    using assms by (intro map_idI) force
  then show ?thesis by (simp add: map_insert_at)
qed

lemma map_of_insert_at_new:
  assumes "r \<notin> fst ` set xs"
  shows "map_of (insert_at n (r, v) xs) = (map_of xs)(r \<mapsto> v)"
proof
  fix k
  have t: "map_of (take n xs) r = None"
    using assms by (auto simp: map_of_eq_None_iff dest: in_set_takeD)
  have x: "map_of xs = map_of (drop n xs) ++ map_of (take n xs)"
    by (metis append_take_drop_id map_of_append)
  show "map_of (insert_at n (r, v) xs) k = ((map_of xs)(r \<mapsto> v)) k"
  proof (cases "k = r")
    case True
    then show ?thesis
      using t by (simp add: insert_at_def map_add_def)
  next
    case False
    then show ?thesis
      by (simp add: insert_at_def x map_add_def split: option.splits)
  qed
qed

lemma image_update_insert_at:
  "r \<notin> fst ` set xs \<Longrightarrow>
   image_update r f (s\<lparr>images := insert_at n (r, v) xs\<rparr>) = s\<lparr>images := insert_at n (r, f v) xs\<rparr>"
  by (simp add: image_update_def update_insert_at_new)

lemma texture_update_insert_at:
  "r \<notin> fst ` set xs \<Longrightarrow>
   texture_update r f (s\<lparr>textures := insert_at n (r, v) xs\<rparr>) =
   s\<lparr>textures := insert_at n (r, f v) xs\<rparr>"
  by (simp add: texture_update_def update_insert_at_new)

section \<open>Loading an image\<close>

lemma images_add_eq:
  "images_add h img s =
     (fresh (map fst (images s) @ tex_img_refs s),
      s\<lparr>images := insert_at (new_index h (img_name img) (map (\<lambda>(k, i). img_name i) (images s)))
                    (fresh (map fst (images s) @ tex_img_refs s), img) (images s)\<rparr>)"
  by (simp add: images_add_def Let_def)

lemma fresh_image_new: "fresh (map fst (images s) @ tex_img_refs s) \<notin> fst ` set (images s)"
  using fresh_notin_append(1) [of "map fst (images s)" "tex_img_refs s"] by simp

text \<open>
  C7. When no image of the store is the file and the host's loader raises,
  \<open>load_image\<close> (a total function: nothing is raised to the caller) adds one line to the
  log, \<open>Cannot create a texture for <path>. No such file.\<close>, and returns a new image,
  made by \<^verbatim>\<open>bpy.data.images.new\<close> with width 1 and height 1, whose source is \<open>FILE\<close> and
  whose file path is the requested path; the rest of the store is as before.
\<close>

theorem load_image_placeholder:
  assumes "find_image h filepath s = None" and "images_load h filepath = None"
  shows "(let r = fresh (map fst (images s) @ tex_img_refs s);
              name = basename h filepath;
              placeholder = (image_defaults h)
                \<lparr>img_name := name, img_size := (1, 1), img_source := ''FILE'',
                 img_filepath := filepath\<rparr>
          in load_image h filepath s =
               (r, s\<lparr>warnings := warnings s @
                        [''Cannot create a texture for '' @ filepath @ ''. No such file.''],
                      images := insert_at
                        (new_index h name (map (\<lambda>(k, i). img_name i) (images s)))
                        (r, placeholder) (images s)\<rparr>)
             \<and> r \<notin> fst ` set (images s)
             \<and> map_of (images (snd (load_image h filepath s))) r = Some placeholder)"
proof -
  define r where "r = fresh (map fst (images s) @ tex_img_refs s)"
  have new: "r \<notin> fst ` set (images s)"
    unfolding r_def by (rule fresh_image_new)
  define s1 where "s1 = s\<lparr>warnings := warnings s @ [warning_line filepath]\<rparr>"
  have s1: "images s1 = images s" "tex_img_refs s1 = tex_img_refs s"
    by (simp_all add: s1_def tex_img_refs_def)
  have eq: "load_image h filepath s =
      (r, s\<lparr>warnings := warnings s @ [warning_line filepath],
             images := insert_at
               (new_index h (basename h filepath) (map (\<lambda>(k, i). img_name i) (images s)))
               (r, (image_defaults h)
                  \<lparr>img_name := basename h filepath, img_size := (1, 1), img_source := ''FILE'',
                   img_filepath := filepath\<rparr>) (images s)\<rparr>)"
    using assms new
    by (simp add: load_image_def images_new_def images_add_eq Let_def
          s1_def [symmetric] s1 r_def [symmetric] image_update_insert_at)
  show ?thesis
    using new
    by (simp add: Let_def r_def [symmetric] eq map_of_insert_at_new warning_line_def)
qed

lemma example_host_load: "images_load example_host ''c.png'' = None"
  by (simp add: example_host_def)

lemma example_find_image_c: "find_image example_host ''c.png'' example_scene = None"
  by (simp add: find_image_def same_image_file_def example_scene_def example_image_def
        example_host_def)

theorem load_image_placeholder_witness:
  "find_image example_host ''c.png'' example_scene = None
   \<and> images_load example_host ''c.png'' = None
   \<and> load_image example_host ''c.png'' example_scene =
       (4, example_scene
            \<lparr>warnings := [''Cannot create a texture for c.png. No such file.''],
             images :=
               [(4, \<lparr>img_name = ''c.png'', img_source = ''FILE'', img_filepath = ''c.png'',
                     img_use_alpha = True, img_size = (1, 1)\<rparr>),
                (3, example_image ''b.png'')]\<rparr>)"
proof -
  have r: "tex_img_refs example_scene = [3]" "fresh [3, 3] = 4"
    by (simp_all add: fresh_def tex_img_refs_def List.map_filter_def example_scene_def
          example_texture_def)
  have s: "images example_scene = [(3, example_image ''b.png'')]" "warnings example_scene = []"
    by (simp_all add: example_scene_def)
  have d: "image_defaults example_host =
      \<lparr>img_name = [], img_source = ''GENERATED'', img_filepath = [], img_use_alpha = True,
       img_size = (0, 0)\<rparr>"
    "basename example_host ''c.png'' = ''c.png''"
    "new_index example_host ''c.png'' [''b.png''] = 0"
    by (simp_all add: example_host_def)
  have n: "img_name (example_image ''b.png'') = ''b.png''"
    by (simp add: example_image_def)
  show ?thesis
    using load_image_placeholder [OF example_find_image_c example_host_load]
    by (simp add: Let_def r s d n insert_at_def example_find_image_c example_host_load)
qed

section \<open>Deduplication\<close>

lemma same_image_file_resolved:
  "img_source img = ''FILE'' \<Longrightarrow> img_filepath img = filepath \<Longrightarrow>
   same_image_file h (Some img) filepath = resolved h filepath"
  by (auto simp: same_image_file_def resolved_def Let_def split: option.splits)

lemma find_Some_mem: "find P xs = Some x \<Longrightarrow> x \<in> set xs \<and> P x"
  by (auto simp: find_Some_iff)

lemma textures_images_add [simp]: "textures (snd (images_add h img s)) = textures s"
  by (simp add: images_add_eq)

lemma textures_image_update [simp]: "textures (image_update i f s) = textures s"
  by (simp add: image_update_def)

lemma images_texture_update [simp]: "images (texture_update t f s) = images s"
  by (simp add: texture_update_def)

lemma textures_load_image [simp]: "textures (snd (load_image h filepath s)) = textures s"
  by (simp add: load_image_def images_new_def Let_def case_prod_beta split: option.splits)

lemma load_image_found:
  "find_image h filepath s = Some (i, img) \<Longrightarrow> load_image h filepath s = (i, s)"
  by (simp add: load_image_def)

lemma load_image_new:
  assumes "find_image h filepath s = None" and "loads_as_file h filepath"
  shows "\<exists>n img. fst (load_image h filepath s) = fresh (map fst (images s) @ tex_img_refs s)
           \<and> images (snd (load_image h filepath s)) =
               insert_at n (fresh (map fst (images s) @ tex_img_refs s), img) (images s)
           \<and> img_source img = ''FILE'' \<and> img_filepath img = filepath"
proof (cases "images_load h filepath")
  case None
  have t: "tex_img_refs (s\<lparr>warnings := w\<rparr>) = tex_img_refs s" for w
    by (simp add: tex_img_refs_def)
  have "fst (load_image h filepath s) = fresh (map fst (images s) @ tex_img_refs s)
      \<and> images (snd (load_image h filepath s)) =
          insert_at (new_index h (basename h filepath) (map (\<lambda>(k, i). img_name i) (images s)))
            (fresh (map fst (images s) @ tex_img_refs s),
             (image_defaults h)\<lparr>img_name := basename h filepath, img_size := (1, 1),
                img_source := ''FILE'', img_filepath := filepath\<rparr>) (images s)"
    using assms(1) None fresh_image_new [of s]
    by (simp add: load_image_def images_new_def images_add_eq Let_def t image_update_insert_at)
  then show ?thesis
    by (intro exI [of _ "new_index h (basename h filepath) (map (\<lambda>(k, i). img_name i) (images s))"]
          exI [of _ "(image_defaults h)\<lparr>img_name := basename h filepath, img_size := (1, 1),
                img_source := ''FILE'', img_filepath := filepath\<rparr>"]) simp
next
  case (Some img)
  then have "img_source img = ''FILE''" "img_filepath img = filepath"
    using assms(2) by (simp_all add: loads_as_file_def)
  moreover have "load_image h filepath s = images_add h img s"
    using assms(1) Some by (simp add: load_image_def)
  ultimately show ?thesis
    by (intro exI [of _ "new_index h (img_name img) (map (\<lambda>(k, i). img_name i) (images s))"]
          exI [of _ img]) (simp add: images_add_eq)
qed

lemma load_image_post:
  assumes "resolved h filepath" and "loads_as_file h filepath"
    and "distinct (map fst (images s))"
  shows "\<exists>img. find_image h filepath (snd (load_image h filepath s)) =
                 Some (fst (load_image h filepath s), img)
             \<and> map_of (images (snd (load_image h filepath s))) (fst (load_image h filepath s)) =
                 Some img
             \<and> same_image_file h (Some img) filepath"
    and "\<forall>j \<in> set (tex_img_refs s).
           map_of (images (snd (load_image h filepath s))) j = map_of (images s) j"
proof -
  let ?r = "fresh (map fst (images s) @ tex_img_refs s)"
  have both: "(\<exists>img. find_image h filepath (snd (load_image h filepath s)) =
                 Some (fst (load_image h filepath s), img)
             \<and> map_of (images (snd (load_image h filepath s))) (fst (load_image h filepath s)) =
                 Some img
             \<and> same_image_file h (Some img) filepath)
      \<and> (\<forall>j \<in> set (tex_img_refs s).
           map_of (images (snd (load_image h filepath s))) j = map_of (images s) j)"
  proof (cases "find_image h filepath s")
    case (Some a)
    obtain i img where a: "a = (i, img)" by (cases a)
    have "(i, img) \<in> set (images s)" "same_image_file h (Some img) filepath"
      using Some find_Some_mem [of _ "images s" a] by (auto simp: find_image_def a)
    then have "map_of (images s) i = Some img"
      using assms(3) by simp
    then show ?thesis
      using Some \<open>same_image_file h (Some img) filepath\<close>
      by (simp add: a load_image_found)
  next
    case None
    from load_image_new [OF None assms(2)] obtain n img where
      f: "fst (load_image h filepath s) = ?r"
      and i: "images (snd (load_image h filepath s)) = insert_at n (?r, img) (images s)"
      and g: "img_source img = ''FILE''" "img_filepath img = filepath"
      by blast
    have new: "?r \<notin> fst ` set (images s)" by (rule fresh_image_new)
    have same: "same_image_file h (Some img) filepath"
      using g assms(1) by (simp add: same_image_file_resolved)
    have "find (\<lambda>(r, i). same_image_file h (Some i) filepath) (images s) = None"
      using None by (simp add: find_image_def)
    then have "find_image h filepath (snd (load_image h filepath s)) = Some (?r, img)"
      using same by (simp add: find_image_def i find_insert_at)
    moreover have "map_of (images (snd (load_image h filepath s))) ?r = Some img"
      using new by (simp add: i map_of_insert_at_new)
    moreover have "\<forall>j \<in> set (tex_img_refs s).
           map_of (images (snd (load_image h filepath s))) j = map_of (images s) j"
      using new fresh_notin_append(2) [of "map fst (images s)" "tex_img_refs s"]
      by (auto simp: i map_of_insert_at_new)
    ultimately show ?thesis
      using same f by simp
  qed
  from both show "\<exists>img. find_image h filepath (snd (load_image h filepath s)) =
                 Some (fst (load_image h filepath s), img)
             \<and> map_of (images (snd (load_image h filepath s))) (fst (load_image h filepath s)) =
                 Some img
             \<and> same_image_file h (Some img) filepath"
    by (rule conjunct1)
  from both show "\<forall>j \<in> set (tex_img_refs s).
           map_of (images (snd (load_image h filepath s))) j = map_of (images s) j"
    by (rule conjunct2)
qed

lemma load_image_twice:
  assumes "resolved h filepath" and "loads_as_file h filepath"
    and "distinct (map fst (images s))"
  shows "load_image h filepath (snd (load_image h filepath s)) = load_image h filepath s"
proof -
  from load_image_post(1) [OF assms] obtain img where
    "find_image h filepath (snd (load_image h filepath s)) = Some (fst (load_image h filepath s), img)"
    by blast
  then show ?thesis
    by (simp add: load_image_found)
qed

lemma set_map_filter: "set (List.map_filter f xs) = {y. \<exists>x \<in> set xs. f x = Some y}"
  by (induction xs) (auto split: option.splits)

lemma textures_new_eq:
  "textures_new h name ty s =
     (fresh (map fst (textures s) @ slot_tex_refs s),
      s\<lparr>textures :=
          insert_at (new_index h name (map (\<lambda>(k, t). tex_name t) (textures s)))
            (fresh (map fst (textures s) @ slot_tex_refs s),
             (texture_defaults h)\<lparr>tex_name := name, tex_type := ty, tex_image := None\<rparr>)
            (textures s)\<rparr>)"
  by (simp add: textures_new_def Let_def)

lemma fresh_texture_new:
  "fresh (map fst (textures s) @ slot_tex_refs s) \<notin> fst ` set (textures s)"
  using fresh_notin_append(1) [of "map fst (textures s)" "slot_tex_refs s"] by simp

lemma load_texture_found:
  "find_texture h filepath s = Some (t, x) \<Longrightarrow> load_texture h filepath s = (t, s)"
  by (simp add: load_texture_def)

lemma load_texture_new:
  assumes "find_texture h filepath s = None"
  shows "load_texture h filepath s =
     (fst (textures_new h (display_name_from_filepath h filepath) ''IMAGE'' s),
      texture_update (fst (textures_new h (display_name_from_filepath h filepath) ''IMAGE'' s))
        (\<lambda>t. t\<lparr>tex_image :=
               Some (fst (load_image h filepath
                            (snd (textures_new h (display_name_from_filepath h filepath) ''IMAGE'' s))))\<rparr>)
        (snd (load_image h filepath
               (snd (textures_new h (display_name_from_filepath h filepath) ''IMAGE'' s)))))"
  using assms by (simp add: load_texture_def Let_def case_prod_beta)

lemma load_texture_post:
  assumes "resolved h filepath" and "loads_as_file h filepath"
    and "distinct (map fst (images s))"
  shows "\<exists>tex. find_texture h filepath (snd (load_texture h filepath s)) =
           Some (fst (load_texture h filepath s), tex)"
proof (cases "find_texture h filepath s")
  case (Some a)
  then show ?thesis
    by (cases a) (simp add: load_texture_found)
next
  case None
  define t where "t = fresh (map fst (textures s) @ slot_tex_refs s)"
  define n where "n = new_index h (display_name_from_filepath h filepath)
                        (map (\<lambda>(k, t). tex_name t) (textures s))"
  define tex0 where "tex0 = (texture_defaults h)
      \<lparr>tex_name := display_name_from_filepath h filepath, tex_type := ''IMAGE'', tex_image := None\<rparr>"
  define s1 where "s1 = s\<lparr>textures := insert_at n (t, tex0) (textures s)\<rparr>"
  define i where "i = fst (load_image h filepath s1)"
  define s2 where "s2 = snd (load_image h filepath s1)"
  define s3 where "s3 = texture_update t (\<lambda>t. t\<lparr>tex_image := Some i\<rparr>) s2"
  have new: "textures_new h (display_name_from_filepath h filepath) ''IMAGE'' s = (t, s1)"
    by (simp add: textures_new_eq t_def n_def tex0_def s1_def)
  have first: "load_texture h filepath s = (t, s3)"
    by (simp add: load_texture_new [OF None] new s3_def i_def s2_def)
  have t_new: "t \<notin> fst ` set (textures s)"
    unfolding t_def by (rule fresh_texture_new)
  have d1: "distinct (map fst (images s1))"
    using assms(3) by (simp add: s1_def)
  have tex2: "textures s2 = insert_at n (t, tex0) (textures s)"
    by (simp add: s2_def s1_def)
  have tex3: "textures s3 = insert_at n (t, tex0\<lparr>tex_image := Some i\<rparr>) (textures s)"
    using t_new by (simp add: s3_def texture_update_def tex2 update_insert_at_new)
  have img3: "images s3 = images s2"
    by (simp add: s3_def)
  from load_image_post(1) [OF assms(1,2) d1] obtain img where
    img: "map_of (images s2) i = Some img" "same_image_file h (Some img) filepath"
    by (auto simp: i_def s2_def)
  have refs: "set (tex_img_refs s) \<subseteq> set (tex_img_refs s1)"
    by (auto simp: tex_img_refs_def set_map_filter s1_def)
  have old: "image_of s3 x = image_of s x" if "(r, x) \<in> set (textures s)" for r x
  proof (cases "tex_image x")
    case None
    then show ?thesis by (simp add: image_of_def)
  next
    case (Some j)
    with that have "j \<in> set (tex_img_refs s)"
      by (force simp: tex_img_refs_def set_map_filter)
    with refs have "j \<in> set (tex_img_refs s1)" by blast
    with load_image_post(2) [OF assms(1,2) d1]
    have "map_of (images s2) j = map_of (images s1) j"
      by (simp add: s2_def)
    then show ?thesis
      by (simp add: image_of_def Some img3 s1_def)
  qed
  have "find (\<lambda>(r, t). tex_type t = ''IMAGE'' \<and> same_image_file h (image_of s3 t) filepath)
          (textures s) =
        find (\<lambda>(r, t). tex_type t = ''IMAGE'' \<and> same_image_file h (image_of s t) filepath)
          (textures s)"
    by (rule find_cong) (auto simp: old)
  then have none3: "find (\<lambda>(r, t). tex_type t = ''IMAGE'' \<and>
      same_image_file h (image_of s3 t) filepath) (textures s) = None"
    using None by (simp add: find_texture_def)
  have "image_of s3 (tex0\<lparr>tex_image := Some i\<rparr>) = Some img"
    by (simp add: image_of_def img3 img(1))
  then have "find_texture h filepath s3 = Some (t, tex0\<lparr>tex_image := Some i\<rparr>)"
    using img(2) by (simp add: find_texture_def tex3 find_insert_at [OF none3] tex0_def)
  then show ?thesis
    by (simp add: first)
qed

lemma example_scene_refs:
  "map fst (images example_scene) = [3]" "tex_img_refs example_scene = [3]"
  "map fst (textures example_scene) = [7]" "slot_tex_refs example_scene = [7, 7]"
  by (simp_all add: example_scene_def tex_img_refs_def slot_tex_refs_def all_slots_def
        List.map_filter_def example_texture_def example_material_def example_slot_def)

lemma example_find_texture_c: "find_texture example_host ''c.png'' example_scene = None"
  by (simp add: find_texture_def same_image_file_def image_of_def example_scene_def
        example_texture_def example_image_def example_host_def)

lemma example_load_image_c: "fst (load_image example_host ''c.png'' example_scene) = 4"
  using load_image_new [OF example_find_image_c, of ]
  by (auto simp: loads_as_file_def example_host_load example_scene_refs fresh_def)

lemma example_load_texture_c: "fst (load_texture example_host ''c.png'' example_scene) = 8"
  by (simp add: load_texture_new [OF example_find_texture_c] textures_new_eq example_scene_refs
        fresh_def)

section \<open>Shared textures\<close>

lemma textures_material_update [simp]: "textures (material_update m f s) = textures s"
  by (simp add: material_update_def)

lemma images_material_update [simp]: "images (material_update m f s) = images s"
  by (simp add: material_update_def)

lemma textures_slot_set [simp]: "textures (slot_set m idx v s) = textures s"
  by (simp add: slot_set_def)

lemma images_slot_set [simp]: "images (slot_set m idx v s) = images s"
  by (simp add: slot_set_def)

lemma materials_slot_set:
  "materials (slot_set m' idx' v s) =
     (materials s)[m' := (materials s ! m')
        \<lparr>texture_slots := (texture_slots (materials s ! m'))[idx' := v]\<rparr>]"
  by (simp add: slot_set_def material_update_def)

lemma length_materials_slot_set [simp]:
  "length (materials (slot_set m' idx' v s)) = length (materials s)"
  by (simp add: materials_slot_set)

lemma length_slots_slot_set [simp]:
  "length (texture_slots (materials (slot_set m' idx' v s) ! m)) =
   length (texture_slots (materials s ! m))"
proof (cases "m' < length (materials s)")
  case True
  then show ?thesis
    by (cases "m = m'") (simp_all add: materials_slot_set)
next
  case False
  then show ?thesis
    by (simp add: materials_slot_set list_update_beyond)
qed

lemma reach_slot_set [simp]: "reach m idx (slot_set m' idx' v s) = reach m idx s"
  by (simp add: reach_def)

lemma reach_same_materials: "materials s' = materials s \<Longrightarrow> reach m idx s' = reach m idx s"
  by (simp add: reach_def)

lemma slot_at_same_materials:
  "materials s' = materials s \<Longrightarrow> slot_at s' m idx = slot_at s m idx"
  by (simp add: slot_at_def)

lemma slot_at_slot_set_other:
  assumes "m \<noteq> m' \<or> idx \<noteq> idx'"
  shows "slot_at (slot_set m' idx' v s) m idx = slot_at s m idx"
proof (cases "m' < length (materials s)")
  case True
  show ?thesis
  proof (cases "m = m'")
    case True
    with assms have "idx \<noteq> idx'" by simp
    then show ?thesis
      using True \<open>m' < length (materials s)\<close> by (simp add: slot_at_def materials_slot_set)
  next
    case False
    then show ?thesis
      by (simp add: slot_at_def materials_slot_set)
  qed
next
  case False
  then show ?thesis
    by (simp add: slot_at_def materials_slot_set list_update_beyond)
qed

lemma image_of_same_images: "images s' = images s \<Longrightarrow> image_of s' = image_of s"
  by (rule ext) (simp add: image_of_def split: option.splits)

lemma find_texture_same_store:
  assumes "textures s' = textures s" and "images s' = images s"
  shows "find_texture h filepath s' = find_texture h filepath s"
proof -
  have "image_of s' = image_of s"
    using assms(2) by (rule image_of_same_images)
  then show ?thesis
    using assms(1) by (simp add: find_texture_def)
qed

lemma map_of_update:
  "map_of (map (\<lambda>(k, x). if k = r then (k, f x) else (k, x)) xs) k =
     (if k = r then map_option f (map_of xs r) else map_of xs k)"
  by (induction xs) auto

lemma map_of_texture_update:
  "map_of (textures (texture_update t f s)) k =
     (if k = t then map_option f (map_of (textures s) t) else map_of (textures s) k)"
  by (simp add: texture_update_def map_of_update)

lemma map_of_image_update:
  "map_of (images (image_update i f s)) k =
     (if k = i then map_option f (map_of (images s) i) else map_of (images s) k)"
  by (simp add: image_update_def map_of_update)

lemma images_textures_update [simp]: "images (textures_remove t s) = images s"
  by (simp add: textures_remove_def)

text \<open>The slot that a create method leaves at its index, before \<open>load_texture\<close>.\<close>

lemma slots_create_update:
  "reach m idx s = None \<Longrightarrow>
   slot_update m idx f (slots_create h m idx s) =
   slot_set m idx (Some (f ((slot_defaults h)\<lparr>slot_texture := None\<rparr>))) s"
  by (simp add: slots_create_def slot_update_slot_set)

text \<open>A texture found for the path has an image of the store.\<close>

lemma find_texture_Some:
  assumes "find_texture h filepath s = Some (t, x)" and "distinct (map fst (textures s))"
  shows "map_of (textures s) t = Some x"
    and "\<exists>i img. tex_image x = Some i \<and> map_of (images s) i = Some img"
proof -
  have m: "(t, x) \<in> set (textures s)" and p: "same_image_file h (image_of s x) filepath"
    using find_Some_mem [OF assms(1) [unfolded find_texture_def]] by auto
  show "map_of (textures s) t = Some x"
    using m assms(2) by simp
  from p obtain img where "image_of s x = Some img"
    by (cases "image_of s x") (auto simp: same_image_file_def)
  then show "\<exists>i img. tex_image x = Some i \<and> map_of (images s) i = Some img"
    by (cases "tex_image x") (auto simp: image_of_def)
qed

lemma clear_use_alpha_Inr:
  assumes "map_of (textures s) t = Some x" "tex_image x = Some i" "map_of (images s) i = Some img"
  shows "clear_use_alpha t s =
     Inr (image_update i (\<lambda>x. x\<lparr>img_use_alpha := False\<rparr>)
           (texture_update t (\<lambda>t. t\<lparr>tex_use_alpha := False\<rparr>) s))"
  using assms by (simp add: clear_use_alpha_def)

lemma create_toon_texture_dedup:
  assumes "reach self TOON_TEX_SLOT s = None"
    and "find_texture h filepath s = Some (t, x)"
    and "distinct (map fst (textures s))"
    and "tex_image x = Some i" and "map_of (images s) i = Some img"
  shows "create_toon_texture h self filepath s =
     Inr (texture_update t (\<lambda>t. t\<lparr>tex_extension := ''EXTEND''\<rparr>)
           (image_update i (\<lambda>x. x\<lparr>img_use_alpha := False\<rparr>)
             (texture_update t (\<lambda>t. t\<lparr>tex_use_alpha := False\<rparr>)
               (slot_set self TOON_TEX_SLOT
                 (Some ((slot_defaults h)
                    \<lparr>texture_coords := ''NORMAL'', blend_type := ''MULTIPLY'',
                     slot_texture := Some t\<rparr>)) s))))"
proof -
  define d1 where "d1 = (slot_defaults h)\<lparr>slot_texture := None\<rparr>"
  define d2 where "d2 = d1\<lparr>texture_coords := ''NORMAL''\<rparr>"
  define d3 where "d3 = d2\<lparr>blend_type := ''MULTIPLY''\<rparr>"
  define d5 where "d5 = d3\<lparr>slot_texture := Some t\<rparr>"
  define s3 where "s3 = slot_set self TOON_TEX_SLOT (Some d3) s"
  define s5 where "s5 = slot_set self TOON_TEX_SLOT (Some d5) s"
  have c1: "slots_create h self TOON_TEX_SLOT s = slot_set self TOON_TEX_SLOT (Some d1) s"
    by (simp add: slots_create_def d1_def)
  have c2: "slot_update self TOON_TEX_SLOT (\<lambda>ts. ts\<lparr>texture_coords := ''NORMAL''\<rparr>)
      (slot_set self TOON_TEX_SLOT (Some d1) s) = slot_set self TOON_TEX_SLOT (Some d2) s"
    unfolding d2_def by (rule slot_update_slot_set [OF assms(1)])
  have c3: "slot_update self TOON_TEX_SLOT (\<lambda>ts. ts\<lparr>blend_type := ''MULTIPLY''\<rparr>)
      (slot_set self TOON_TEX_SLOT (Some d2) s) = s3"
    unfolding d3_def s3_def by (rule slot_update_slot_set [OF assms(1)])
  have "find_texture h filepath s3 = find_texture h filepath s"
    by (rule find_texture_same_store) (simp_all add: s3_def)
  then have l: "load_texture h filepath s3 = (t, s3)"
    using assms(2) by (simp add: load_texture_found)
  have c5: "slot_update self TOON_TEX_SLOT (\<lambda>ts. ts\<lparr>slot_texture := Some t\<rparr>) s3 = s5"
    unfolding d5_def s3_def s5_def by (rule slot_update_slot_set [OF assms(1)])
  have m: "map_of (textures s5) t = Some x" "map_of (images s5) i = Some img"
    using find_texture_Some(1) [OF assms(2,3)] assms(5) by (simp_all add: s5_def)
  have c6: "clear_use_alpha t s5 =
     Inr (image_update i (\<lambda>x. x\<lparr>img_use_alpha := False\<rparr>)
           (texture_update t (\<lambda>t. t\<lparr>tex_use_alpha := False\<rparr>) s5))"
    by (rule clear_use_alpha_Inr [OF m(1) assms(4) m(2)])
  have "create_toon_texture h self filepath s =
     Inr (texture_update t (\<lambda>t. t\<lparr>tex_extension := ''EXTEND''\<rparr>)
           (image_update i (\<lambda>x. x\<lparr>img_use_alpha := False\<rparr>)
             (texture_update t (\<lambda>t. t\<lparr>tex_use_alpha := False\<rparr>) s5)))"
    by (simp only: create_toon_texture_def assms(1) option.case Let_def c1 c2 c3 l prod.case c5 c6
          sum.case)
  moreover have "d5 = (slot_defaults h)
      \<lparr>texture_coords := ''NORMAL'', blend_type := ''MULTIPLY'', slot_texture := Some t\<rparr>"
    by (simp add: d5_def d3_def d2_def d1_def)
  ultimately show ?thesis
    by (simp add: s5_def)
qed

lemma textures_slot_update [simp]: "textures (slot_update m idx f s) = textures s"
  by (simp add: slot_update_def)

lemma images_slot_update [simp]: "images (slot_update m idx f s) = images s"
  by (simp add: slot_update_def)

lemma slot_at_slot_update_other:
  "m \<noteq> m' \<or> idx \<noteq> idx' \<Longrightarrow> slot_at (slot_update m' idx' f s) m idx = slot_at s m idx"
  by (simp add: slot_update_def slot_at_slot_set_other)

lemma update_sphere_texture_type_store:
  assumes "reach self SPHERE_TEX_SLOT s = None"
  shows "\<exists>s'. update_sphere_texture_type self s = Inr s'
           \<and> textures s' = textures s \<and> images s' = images s
           \<and> (\<forall>m idx. m \<noteq> self \<or> idx \<noteq> SPHERE_TEX_SLOT \<longrightarrow>
                  slot_at s' m idx = slot_at s m idx)"
proof (cases "texture_slots (materials s ! self) ! SPHERE_TEX_SLOT")
  case None
  with assms show ?thesis
    by (simp add: update_sphere_texture_type_def)
next
  case (Some ts)
  show ?thesis
  proof (cases "sphere_texture_type (mmd_material (materials s ! self)) \<in> {1, 2, 3}")
    case True
    with assms Some show ?thesis
      by (simp add: update_sphere_texture_type_def Let_def slot_at_slot_update_other)
  next
    case False
    with assms Some show ?thesis
      by (simp add: update_sphere_texture_type_def Let_def slot_at_slot_update_other)
  qed
qed

lemma create_sphere_texture_dedup:
  assumes "reach self SPHERE_TEX_SLOT s = None"
    and "find_texture h filepath s = Some (t, x)"
    and "distinct (map fst (textures s))"
    and "tex_image x = Some i" and "map_of (images s) i = Some img"
  shows "create_sphere_texture h self filepath s =
     update_sphere_texture_type self
       (image_update i (\<lambda>x. x\<lparr>img_use_alpha := False\<rparr>)
         (texture_update t (\<lambda>t. t\<lparr>tex_use_alpha := False\<rparr>)
           (slot_set self SPHERE_TEX_SLOT
             (Some ((slot_defaults h)\<lparr>texture_coords := ''NORMAL'', slot_texture := Some t\<rparr>))
             s)))"
proof -
  define d1 where "d1 = (slot_defaults h)\<lparr>slot_texture := None\<rparr>"
  define d2 where "d2 = d1\<lparr>texture_coords := ''NORMAL''\<rparr>"
  define d4 where "d4 = d2\<lparr>slot_texture := Some t\<rparr>"
  define s2 where "s2 = slot_set self SPHERE_TEX_SLOT (Some d2) s"
  define s4 where "s4 = slot_set self SPHERE_TEX_SLOT (Some d4) s"
  have c1: "slots_create h self SPHERE_TEX_SLOT s = slot_set self SPHERE_TEX_SLOT (Some d1) s"
    by (simp add: slots_create_def d1_def)
  have c2: "slot_update self SPHERE_TEX_SLOT (\<lambda>ts. ts\<lparr>texture_coords := ''NORMAL''\<rparr>)
      (slot_set self SPHERE_TEX_SLOT (Some d1) s) = s2"
    unfolding d2_def s2_def by (rule slot_update_slot_set [OF assms(1)])
  have "find_texture h filepath s2 = find_texture h filepath s"
    by (rule find_texture_same_store) (simp_all add: s2_def)
  then have l: "load_texture h filepath s2 = (t, s2)"
    using assms(2) by (simp add: load_texture_found)
  have c4: "slot_update self SPHERE_TEX_SLOT (\<lambda>ts. ts\<lparr>slot_texture := Some t\<rparr>) s2 = s4"
    unfolding d4_def s2_def s4_def by (rule slot_update_slot_set [OF assms(1)])
  have m: "map_of (textures s4) t = Some x" "map_of (images s4) i = Some img"
    using find_texture_Some(1) [OF assms(2,3)] assms(5) by (simp_all add: s4_def)
  have c5: "clear_use_alpha t s4 =
     Inr (image_update i (\<lambda>x. x\<lparr>img_use_alpha := False\<rparr>)
           (texture_update t (\<lambda>t. t\<lparr>tex_use_alpha := False\<rparr>) s4))"
    by (rule clear_use_alpha_Inr [OF m(1) assms(4) m(2)])
  have "create_sphere_texture h self filepath s =
     update_sphere_texture_type self
       (image_update i (\<lambda>x. x\<lparr>img_use_alpha := False\<rparr>)
         (texture_update t (\<lambda>t. t\<lparr>tex_use_alpha := False\<rparr>) s4))"
    by (simp only: create_sphere_texture_def assms(1) option.case Let_def c1 c2 l prod.case c4 c5
          sum.case)
  moreover have "d4 = (slot_defaults h)\<lparr>texture_coords := ''NORMAL'', slot_texture := Some t\<rparr>"
    by (simp add: d4_def d2_def d1_def)
  ultimately show ?thesis
    by (simp add: s4_def)
qed

text \<open>
  C9. Let \<open>load_texture\<close> find an existing texture \<open>t\<close> for the path, in a store
  whose texture references each stand for one texture. Then \<open>create_toon_texture\<close>
  leaves that texture with \<open>use_alpha\<close> false and the extension \<open>EXTEND\<close>, and its
  image with \<open>use_alpha\<close> false; \<open>create_sphere_texture\<close> leaves the texture and its
  image with \<open>use_alpha\<close> false. Every slot other than the one the call writes, of this
  material and of every other, holds what it held: a slot that referred to \<open>t\<close> still
  does, and reads the changed texture.
\<close>

theorem create_mutates_shared_texture:
  assumes "find_texture h filepath s = Some (t, x)" and "distinct (map fst (textures s))"
  shows "\<exists>i img. map_of (textures s) t = Some x \<and> tex_image x = Some i
           \<and> map_of (images s) i = Some img
           \<and> (reach self TOON_TEX_SLOT s = None \<longrightarrow>
                (\<exists>s'. create_toon_texture h self filepath s = Inr s'
                   \<and> map_of (textures s') t =
                       Some (x\<lparr>tex_use_alpha := False, tex_extension := ''EXTEND''\<rparr>)
                   \<and> map_of (images s') i = Some (img\<lparr>img_use_alpha := False\<rparr>)
                   \<and> (\<forall>m idx. m \<noteq> self \<or> idx \<noteq> TOON_TEX_SLOT \<longrightarrow>
                          slot_at s' m idx = slot_at s m idx)))
           \<and> (reach self SPHERE_TEX_SLOT s = None \<longrightarrow>
                (\<exists>s'. create_sphere_texture h self filepath s = Inr s'
                   \<and> map_of (textures s') t = Some (x\<lparr>tex_use_alpha := False\<rparr>)
                   \<and> map_of (images s') i = Some (img\<lparr>img_use_alpha := False\<rparr>)
                   \<and> (\<forall>m idx. m \<noteq> self \<or> idx \<noteq> SPHERE_TEX_SLOT \<longrightarrow>
                          slot_at s' m idx = slot_at s m idx)))"
proof -
  note tx = find_texture_Some(1) [OF assms]
  from find_texture_Some(2) [OF assms] obtain i img where
    i: "tex_image x = Some i" and img: "map_of (images s) i = Some img"
    by blast
  have toon: "\<exists>s'. create_toon_texture h self filepath s = Inr s'
       \<and> map_of (textures s') t = Some (x\<lparr>tex_use_alpha := False, tex_extension := ''EXTEND''\<rparr>)
       \<and> map_of (images s') i = Some (img\<lparr>img_use_alpha := False\<rparr>)
       \<and> (\<forall>m idx. m \<noteq> self \<or> idx \<noteq> TOON_TEX_SLOT \<longrightarrow>
              slot_at s' m idx = slot_at s m idx)"
    if r: "reach self TOON_TEX_SLOT s = None"
    unfolding create_toon_texture_dedup [OF r assms i img]
    using tx img
    by (simp add: map_of_texture_update map_of_image_update slot_at_slot_set_other
          slot_at_same_materials [of "texture_update _ _ _"]
          slot_at_same_materials [of "image_update _ _ _"])
  have sphere: "\<exists>s'. create_sphere_texture h self filepath s = Inr s'
       \<and> map_of (textures s') t = Some (x\<lparr>tex_use_alpha := False\<rparr>)
       \<and> map_of (images s') i = Some (img\<lparr>img_use_alpha := False\<rparr>)
       \<and> (\<forall>m idx. m \<noteq> self \<or> idx \<noteq> SPHERE_TEX_SLOT \<longrightarrow>
              slot_at s' m idx = slot_at s m idx)"
    if r: "reach self SPHERE_TEX_SLOT s = None"
  proof -
    let ?s4 = "slot_set self SPHERE_TEX_SLOT
             (Some ((slot_defaults h)\<lparr>texture_coords := ''NORMAL'', slot_texture := Some t\<rparr>)) s"
    let ?s5 = "image_update i (\<lambda>x. x\<lparr>img_use_alpha := False\<rparr>)
         (texture_update t (\<lambda>t. t\<lparr>tex_use_alpha := False\<rparr>) ?s4)"
    have m5: "materials ?s5 = materials ?s4"
      by simp
    have r5: "reach self SPHERE_TEX_SLOT ?s5 = None"
      using r by (simp add: reach_same_materials [OF m5])
    from update_sphere_texture_type_store [OF r5] obtain s' where
      u: "update_sphere_texture_type self ?s5 = Inr s'"
      and t: "textures s' = textures ?s5" and im: "images s' = images ?s5"
      and sl: "\<forall>m idx. m \<noteq> self \<or> idx \<noteq> SPHERE_TEX_SLOT \<longrightarrow>
                  slot_at s' m idx = slot_at ?s5 m idx"
      by blast
    have sl5: "slot_at ?s5 m idx = slot_at s m idx" if "m \<noteq> self \<or> idx \<noteq> SPHERE_TEX_SLOT" for m idx
      using that by (simp add: slot_at_same_materials [OF m5] slot_at_slot_set_other)
    have "map_of (textures s') t = Some (x\<lparr>tex_use_alpha := False\<rparr>)"
      using tx by (simp add: t map_of_texture_update)
    moreover have "map_of (images s') i = Some (img\<lparr>img_use_alpha := False\<rparr>)"
      using img by (simp add: im map_of_image_update)
    ultimately show ?thesis
      using u sl sl5 by (simp add: create_sphere_texture_dedup [OF r assms i img])
  qed
  show ?thesis
  proof (intro exI [of _ i] exI [of _ img] conjI impI)
    show "map_of (textures s) t = Some x" by (rule tx)
    show "tex_image x = Some i" by (rule i)
    show "map_of (images s) i = Some img" by (rule img)
  qed (erule toon, erule sphere)
qed

lemma example_find_texture_b:
  "find_texture example_host ''b.png'' example_scene = Some (7, example_texture ''b.png'' (Some 3))"
  by (simp add: find_texture_def same_image_file_def image_of_def example_scene_def
        example_texture_def example_image_def example_host_def)

theorem create_mutates_shared_texture_witness:
  "find_texture example_host ''b.png'' example_scene = Some (7, example_texture ''b.png'' (Some 3))
   \<and> distinct (map fst (textures example_scene))
   \<and> reach 0 TOON_TEX_SLOT example_scene = None
   \<and> slot_at example_scene 1 TOON_TEX_SLOT = Some (example_slot (Some 7))
   \<and> (case create_toon_texture example_host 0 ''b.png'' example_scene of
         Inl e \<Rightarrow> False
       | Inr s' \<Rightarrow>
           map_of (textures s') 7 =
             Some ((example_texture ''b.png'' (Some 3))
                     \<lparr>tex_use_alpha := False, tex_extension := ''EXTEND''\<rparr>)
           \<and> map_of (images s') 3 = Some ((example_image ''b.png'')\<lparr>img_use_alpha := False\<rparr>)
           \<and> slot_at s' 1 TOON_TEX_SLOT = Some (example_slot (Some 7)))"
proof -
  have d: "distinct (map fst (textures example_scene))"
    by (simp add: example_scene_refs)
  have r: "reach 0 TOON_TEX_SLOT example_scene = None"
    by (simp add: reach_def example_scene_def example_material_def TOON_TEX_SLOT_def)
  have o: "slot_at example_scene 1 TOON_TEX_SLOT = Some (example_slot (Some 7))"
    by (simp add: slot_at_def example_scene_def example_material_def TOON_TEX_SLOT_def)
  from create_mutates_shared_texture [OF example_find_texture_b d, of 0]
  obtain i img where
    a: "tex_image (example_texture ''b.png'' (Some 3)) = Some i"
    and b: "map_of (images example_scene) i = Some img"
    and c: "reach 0 TOON_TEX_SLOT example_scene = None \<longrightarrow>
        (\<exists>s'. create_toon_texture example_host 0 ''b.png'' example_scene = Inr s'
           \<and> map_of (textures s') 7 =
               Some ((example_texture ''b.png'' (Some 3))
                       \<lparr>tex_use_alpha := False, tex_extension := ''EXTEND''\<rparr>)
           \<and> map_of (images s') i = Some (img\<lparr>img_use_alpha := False\<rparr>)
           \<and> (\<forall>m idx. m \<noteq> 0 \<or> idx \<noteq> TOON_TEX_SLOT \<longrightarrow>
                  slot_at s' m idx = slot_at example_scene m idx))"
    by (elim exE conjE)
  from a have i: "i = 3"
    by (simp add: example_texture_def)
  from b have img: "img = example_image ''b.png''"
    by (simp add: i example_scene_def)
  from c r obtain s' where
    s: "create_toon_texture example_host 0 ''b.png'' example_scene = Inr s'"
    and t: "map_of (textures s') 7 =
               Some ((example_texture ''b.png'' (Some 3))
                       \<lparr>tex_use_alpha := False, tex_extension := ''EXTEND''\<rparr>)"
    and m: "map_of (images s') i = Some (img\<lparr>img_use_alpha := False\<rparr>)"
    and f: "\<forall>m idx. m \<noteq> 0 \<or> idx \<noteq> TOON_TEX_SLOT \<longrightarrow>
                  slot_at s' m idx = slot_at example_scene m idx"
    by (elim impE exE conjE) simp
  from f have "slot_at s' 1 TOON_TEX_SLOT = slot_at example_scene 1 TOON_TEX_SLOT"
    by simp
  then show ?thesis
    using example_find_texture_b d r o s t m by (simp add: i img)
qed

section \<open>Removing a texture\<close>

lemma keys_update:
  "map fst (map (\<lambda>(k, x). if k = r then (k, f x) else (k, x)) xs) = map fst xs"
  by (induction xs) auto

lemma filter_update_removed:
  "filter (\<lambda>(k, x). k \<noteq> r) (map (\<lambda>(k, x). if k = r then (k, f x) else (k, x)) xs) =
   filter (\<lambda>(k, x). k \<noteq> r) xs"
  by (induction xs) auto

lemma textures_slots_clear [simp]: "textures (slots_clear m idx s) = textures s"
  by (simp add: slots_clear_def)

lemma images_slots_clear [simp]: "images (slots_clear m idx s) = images s"
  by (simp add: slots_clear_def)

lemma textures_slots_create [simp]: "textures (slots_create h m idx s) = textures s"
  by (simp add: slots_create_def)

lemma images_slots_create [simp]: "images (slots_create h m idx s) = images s"
  by (simp add: slots_create_def)

lemma textures_images_remove [simp]: "textures (images_remove i s) = textures s"
  by (simp add: images_remove_def)

lemma load_texture_in_store:
  "fst (load_texture h filepath s) \<in> fst ` set (textures (snd (load_texture h filepath s)))"
proof (cases "find_texture h filepath s")
  case None
  have "fst (load_texture h filepath s) \<in>
      set (map fst (textures (snd (load_texture h filepath s))))"
    by (simp add: load_texture_new [OF None] textures_new_eq texture_update_def keys_update
          map_insert_at)
  then show ?thesis by simp
next
  case (Some a)
  obtain t x where a: "a = (t, x)" by (cases a)
  have "(t, x) \<in> set (textures s)"
    using find_Some_mem [OF Some [unfolded find_texture_def]] by (simp add: a)
  then have "t \<in> fst ` set (textures s)" by force
  then show ?thesis
    using Some by (simp add: a load_texture_found)
qed

lemma map_of_in_store: "k \<in> fst ` set xs \<Longrightarrow> \<exists>v. map_of xs k = Some v"
  by (cases "map_of xs k") (auto simp: map_of_eq_None_iff)

text \<open>What \<open>create_texture\<close> returns: the BASE slot holds the texture that
  \<open>load_texture\<close> returned, and that texture is in the store.\<close>

lemma create_texture_Inr:
  assumes "create_texture h self filepath s = Inr s1"
  shows "reach self BASE_TEX_SLOT s1 = None"
    and "\<exists>slot t tex. slot_at s1 self BASE_TEX_SLOT = Some slot \<and> slot_texture slot = Some t
           \<and> map_of (textures s1) t = Some tex"
proof -
  have r: "reach self BASE_TEX_SLOT s = None"
    using assms by (cases "reach self BASE_TEX_SLOT s") (simp_all add: create_texture_def)
  define d where "d = (slot_defaults h)
      \<lparr>slot_texture := None, use_map_alpha := True, texture_coords := ''UV'',
       blend_type := ''MULTIPLY''\<rparr>"
  define s4 where "s4 = slot_set self BASE_TEX_SLOT (Some d) s"
  define t where "t = fst (load_texture h filepath s4)"
  define s5 where "s5 = snd (load_texture h filepath s4)"
  have c: "slot_update self BASE_TEX_SLOT (\<lambda>ts. ts\<lparr>blend_type := ''MULTIPLY''\<rparr>)
        (slot_update self BASE_TEX_SLOT (\<lambda>ts. ts\<lparr>texture_coords := ''UV''\<rparr>)
          (slot_update self BASE_TEX_SLOT (\<lambda>ts. ts\<lparr>use_map_alpha := True\<rparr>)
            (slots_create h self BASE_TEX_SLOT s))) = s4"
    using r by (simp add: slots_create_update slot_update_slot_set s4_def d_def)
  have m5: "materials s5 = materials s4"
    by (simp add: s5_def)
  have r4: "reach self BASE_TEX_SLOT s4 = None"
    using r by (simp add: s4_def)
  have r5: "reach self BASE_TEX_SLOT s5 = None"
    using r4 by (simp add: reach_same_materials [OF m5])
  have a5: "slot_at s5 self BASE_TEX_SLOT = Some d"
    using r by (simp add: slot_at_same_materials [OF m5] s4_def slot_at_slot_set)
  have s1: "s1 = slot_set self BASE_TEX_SLOT (Some (d\<lparr>slot_texture := Some t\<rparr>)) s5"
    using assms r
    by (simp add: create_texture_def Let_def case_prod_beta c t_def [symmetric] s5_def [symmetric]
          slot_update_Some [OF a5])
  show "reach self BASE_TEX_SLOT s1 = None"
    using r5 by (simp add: s1)
  have "t \<in> fst ` set (textures s5)"
    unfolding t_def s5_def by (rule load_texture_in_store)
  then obtain tex where "map_of (textures s1) t = Some tex"
    using map_of_in_store [of t "textures s5"] by (auto simp: s1)
  moreover have "slot_at s1 self BASE_TEX_SLOT = Some (d\<lparr>slot_texture := Some t\<rparr>)"
    using r5 by (simp add: s1 slot_at_slot_set)
  ultimately show "\<exists>slot t tex. slot_at s1 self BASE_TEX_SLOT = Some slot
      \<and> slot_texture slot = Some t \<and> map_of (textures s1) t = Some tex"
    by (intro exI [of _ "d\<lparr>slot_texture := Some t\<rparr>"] exI [of _ t] exI [of _ tex]) simp
qed

lemma remove_texture_held:
  assumes "reach self index s = None" and "slot_at s self index = Some slot"
    and "slot_texture slot = Some t" and "map_of (textures s) t = Some tex"
  shows "remove_texture self index s =
     (if tex_users (slots_clear self index s) t < 1 then
        (case tex_image tex of
           None \<Rightarrow>
             Inr (textures_remove t
                   (texture_update t (\<lambda>t. t\<lparr>tex_image := None\<rparr>) (slots_clear self index s)))
         | Some i \<Rightarrow>
             if img_users (textures_remove t
                   (texture_update t (\<lambda>t. t\<lparr>tex_image := None\<rparr>) (slots_clear self index s))) i < 1
             then Inr (images_remove i (textures_remove t
                   (texture_update t (\<lambda>t. t\<lparr>tex_image := None\<rparr>) (slots_clear self index s))))
             else Inr (textures_remove t
                   (texture_update t (\<lambda>t. t\<lparr>tex_image := None\<rparr>) (slots_clear self index s))))
      else Inr (slots_clear self index s))"
  using assms by (simp add: remove_texture_def slot_at_def Let_def)

lemma img_users_none:
  "img_users s i < 1 \<longleftrightarrow> \<not> (\<exists>(r, x) \<in> set (textures s). tex_image x = Some i)"
proof -
  have "img_users s i < 1 \<longleftrightarrow> i \<notin> set (tex_img_refs s)"
    by (auto simp: img_users_def filter_empty_conv)
  also have "\<dots> \<longleftrightarrow> \<not> (\<exists>(r, x) \<in> set (textures s). tex_image x = Some i)"
    by (auto simp: tex_img_refs_def set_map_filter)
  finally show ?thesis .
qed

lemma textures_removed:
  "textures (textures_remove t (texture_update t f s)) = filter (\<lambda>(r, x). r \<noteq> t) (textures s)"
  by (simp add: textures_remove_def texture_update_def filter_update_removed)

text \<open>
  C1. After \<open>create_texture\<close> the BASE slot holds a texture \<open>t\<close> of the store.
  \<open>remove_texture\<close> of the BASE slot then clears the slot and, when a slot anywhere
  still refers to \<open>t\<close>, removes neither a texture nor an image. When no slot refers to
  \<open>t\<close> any more, it deletes \<open>t\<close> and no other texture, and it deletes the image of
  \<open>t\<close> exactly when no texture other than \<open>t\<close> holds that image: the users of the
  image are counted once \<open>t\<close> has let go of it and is gone.
\<close>

theorem create_then_remove_texture:
  assumes "create_texture h self filepath s = Inr s1"
  shows "\<exists>slot t tex.
           slot_at s1 self BASE_TEX_SLOT = Some slot \<and> slot_texture slot = Some t
         \<and> map_of (textures s1) t = Some tex
         \<and> (0 < tex_users (slots_clear self BASE_TEX_SLOT s1) t \<longrightarrow>
               remove_texture self BASE_TEX_SLOT s1 = Inr (slots_clear self BASE_TEX_SLOT s1)
             \<and> textures (slots_clear self BASE_TEX_SLOT s1) = textures s1
             \<and> images (slots_clear self BASE_TEX_SLOT s1) = images s1)
         \<and> (tex_users (slots_clear self BASE_TEX_SLOT s1) t = 0 \<longrightarrow>
              (\<exists>s2. remove_texture self BASE_TEX_SLOT s1 = Inr s2
                 \<and> materials s2 = materials (slots_clear self BASE_TEX_SLOT s1)
                 \<and> textures s2 = filter (\<lambda>(r, x). r \<noteq> t) (textures s1)
                 \<and> t \<notin> fst ` set (textures s2)
                 \<and> images s2 =
                     (case tex_image tex of
                        None \<Rightarrow> images s1
                      | Some i \<Rightarrow>
                          if \<exists>(r, x) \<in> set (textures s1). r \<noteq> t \<and> tex_image x = Some i
                          then images s1
                          else filter (\<lambda>(r, x). r \<noteq> i) (images s1))))"
proof -
  note r = create_texture_Inr(1) [OF assms]
  from create_texture_Inr(2) [OF assms] obtain slot t tex where
    a: "slot_at s1 self BASE_TEX_SLOT = Some slot" and b: "slot_texture slot = Some t"
    and c: "map_of (textures s1) t = Some tex"
    by blast
  let ?c = "slots_clear self BASE_TEX_SLOT s1"
  let ?s3 = "textures_remove t (texture_update t (\<lambda>t. t\<lparr>tex_image := None\<rparr>) ?c)"
  note eq = remove_texture_held [OF r a b c]
  have used: "remove_texture self BASE_TEX_SLOT s1 = Inr ?c
      \<and> textures ?c = textures s1 \<and> images ?c = images s1"
    if "0 < tex_users ?c t"
    using that by (simp add: eq)
  have t3: "textures ?s3 = filter (\<lambda>(r, x). r \<noteq> t) (textures s1)"
    by (simp add: textures_removed)
  have u3: "img_users ?s3 i < 1 \<longleftrightarrow>
      \<not> (\<exists>(r, x) \<in> set (textures s1). r \<noteq> t \<and> tex_image x = Some i)" for i
    by (subst img_users_none) (auto simp: t3)
  have unused: "\<exists>s2. remove_texture self BASE_TEX_SLOT s1 = Inr s2
         \<and> materials s2 = materials ?c
         \<and> textures s2 = filter (\<lambda>(r, x). r \<noteq> t) (textures s1)
         \<and> t \<notin> fst ` set (textures s2)
         \<and> images s2 =
             (case tex_image tex of
                None \<Rightarrow> images s1
              | Some i \<Rightarrow>
                  if \<exists>(r, x) \<in> set (textures s1). r \<noteq> t \<and> tex_image x = Some i
                  then images s1
                  else filter (\<lambda>(r, x). r \<noteq> i) (images s1))"
    if z: "tex_users ?c t = 0"
  proof (cases "tex_image tex")
    case None
    have "remove_texture self BASE_TEX_SLOT s1 = Inr ?s3"
      using z by (simp add: eq None)
    moreover have "t \<notin> fst ` set (textures ?s3)"
      by (auto simp: t3)
    ultimately show ?thesis
      using t3 by (simp add: None)
  next
    case (Some i)
    show ?thesis
    proof (cases "img_users ?s3 i < 1")
      case True
      then have "remove_texture self BASE_TEX_SLOT s1 = Inr (images_remove i ?s3)"
        using z by (simp add: eq Some)
      moreover have "t \<notin> fst ` set (textures (images_remove i ?s3))"
        by (auto simp: t3)
      moreover have "images (images_remove i ?s3) = filter (\<lambda>(r, x). r \<noteq> i) (images s1)"
        by (simp add: images_remove_def)
      moreover have "\<not> (\<exists>(r, x) \<in> set (textures s1). r \<noteq> t \<and> tex_image x = Some i)"
        using True u3 [of i] by blast
      ultimately show ?thesis
        using t3 by (simp add: Some)
    next
      case False
      then have "remove_texture self BASE_TEX_SLOT s1 = Inr ?s3"
        using z by (simp add: eq Some)
      moreover have "t \<notin> fst ` set (textures ?s3)"
        by (auto simp: t3)
      moreover have "\<exists>(r, x) \<in> set (textures s1). r \<noteq> t \<and> tex_image x = Some i"
        using False u3 [of i] by blast
      ultimately show ?thesis
        using t3 by (simp add: Some)
    qed
  qed
  show ?thesis
  proof (intro exI [of _ slot] exI [of _ t] exI [of _ tex] conjI impI)
    show "slot_at s1 self BASE_TEX_SLOT = Some slot" by (rule a)
    show "slot_texture slot = Some t" by (rule b)
    show "map_of (textures s1) t = Some tex" by (rule c)
  qed (use used unused in blast)+
qed

lemma example_create_c:
  "create_texture example_host 0 ''c.png'' example_scene = Inr created_scene"
  by code_simp

lemma example_create_b:
  "create_texture example_host 0 ''b.png'' example_scene = Inr shared_scene"
  by code_simp

lemma created_scene_facts:
  "slot_at created_scene 0 BASE_TEX_SLOT = Some (base_slot 8)"
  "map_of (textures created_scene) 8 = Some (example_texture ''c.png'' (Some 4))"
  "tex_users (slots_clear 0 BASE_TEX_SLOT created_scene) 8 = 0"
  "filter (\<lambda>(r, x). r \<noteq> 8) (textures created_scene) = textures example_scene"
  "filter (\<lambda>(r, x). r \<noteq> 4) (images created_scene) = images example_scene"
  "\<not> (\<exists>(r, x) \<in> set (textures created_scene). r \<noteq> 8 \<and> tex_image x = Some 4)"
  by code_simp+

lemma shared_scene_store:
  "slot_at shared_scene 0 BASE_TEX_SLOT = Some (base_slot 7)"
  "tex_users (slots_clear 0 BASE_TEX_SLOT shared_scene) 7 = 2"
  "textures shared_scene = textures example_scene"
  "images shared_scene = images example_scene"
  by code_simp+

theorem create_then_remove_texture_witness:
  "create_texture example_host 0 ''c.png'' example_scene = Inr created_scene
   \<and> slot_at created_scene 0 BASE_TEX_SLOT = Some (base_slot 8)
   \<and> tex_users (slots_clear 0 BASE_TEX_SLOT created_scene) 8 = 0
   \<and> (case remove_texture 0 BASE_TEX_SLOT created_scene of
         Inl e \<Rightarrow> False
       | Inr s2 \<Rightarrow> textures s2 = textures example_scene \<and> images s2 = images example_scene)
   \<and> create_texture example_host 0 ''b.png'' example_scene = Inr shared_scene
   \<and> slot_at shared_scene 0 BASE_TEX_SLOT = Some (base_slot 7)
   \<and> tex_users (slots_clear 0 BASE_TEX_SLOT shared_scene) 7 = 2
   \<and> remove_texture 0 BASE_TEX_SLOT shared_scene = Inr (slots_clear 0 BASE_TEX_SLOT shared_scene)
   \<and> textures (slots_clear 0 BASE_TEX_SLOT shared_scene) = textures example_scene
   \<and> images (slots_clear 0 BASE_TEX_SLOT shared_scene) = images example_scene"
proof -
  from create_then_remove_texture [OF example_create_c] obtain slot t tex where
    a: "slot_at created_scene 0 BASE_TEX_SLOT = Some slot" and b: "slot_texture slot = Some t"
    and c: "map_of (textures created_scene) t = Some tex"
    and e: "tex_users (slots_clear 0 BASE_TEX_SLOT created_scene) t = 0 \<longrightarrow>
              (\<exists>s2. remove_texture 0 BASE_TEX_SLOT created_scene = Inr s2
                 \<and> materials s2 = materials (slots_clear 0 BASE_TEX_SLOT created_scene)
                 \<and> textures s2 = filter (\<lambda>(r, x). r \<noteq> t) (textures created_scene)
                 \<and> t \<notin> fst ` set (textures s2)
                 \<and> images s2 =
                     (case tex_image tex of
                        None \<Rightarrow> images created_scene
                      | Some i \<Rightarrow>
                          if \<exists>(r, x) \<in> set (textures created_scene). r \<noteq> t \<and> tex_image x = Some i
                          then images created_scene
                          else filter (\<lambda>(r, x). r \<noteq> i) (images created_scene)))"
    by (elim exE conjE)
  have t: "t = 8"
    using a b by (auto simp: created_scene_facts(1) base_slot_def)
  have tex: "tex = example_texture ''c.png'' (Some 4)"
    using c by (simp add: t created_scene_facts(2))
  have i: "tex_image tex = Some 4"
    by (simp add: tex example_texture_def)
  from e obtain s2 where
    r: "remove_texture 0 BASE_TEX_SLOT created_scene = Inr s2"
    and x: "textures s2 = filter (\<lambda>(r, x). r \<noteq> 8) (textures created_scene)"
    and y: "images s2 =
              (if \<exists>(r, x) \<in> set (textures created_scene). r \<noteq> 8 \<and> tex_image x = Some 4
               then images created_scene
               else filter (\<lambda>(r, x). r \<noteq> 4) (images created_scene))"
    unfolding t i using created_scene_facts(3) by (elim impE exE conjE) simp_all
  have first: "case remove_texture 0 BASE_TEX_SLOT created_scene of
         Inl e \<Rightarrow> False
       | Inr s2 \<Rightarrow> textures s2 = textures example_scene \<and> images s2 = images example_scene"
    using created_scene_facts(6)
    by (simp only: r sum.case x y created_scene_facts(4,5) if_False simp_thms)
  from create_then_remove_texture [OF example_create_b] obtain slot' t' where
    a': "slot_at shared_scene 0 BASE_TEX_SLOT = Some slot'" and b': "slot_texture slot' = Some t'"
    and d': "0 < tex_users (slots_clear 0 BASE_TEX_SLOT shared_scene) t' \<longrightarrow>
               remove_texture 0 BASE_TEX_SLOT shared_scene =
                 Inr (slots_clear 0 BASE_TEX_SLOT shared_scene)
             \<and> textures (slots_clear 0 BASE_TEX_SLOT shared_scene) = textures shared_scene
             \<and> images (slots_clear 0 BASE_TEX_SLOT shared_scene) = images shared_scene"
    by (elim exE conjE)
  have t': "t' = 7"
    using a' b' by (auto simp: shared_scene_store(1) base_slot_def)
  have second: "remove_texture 0 BASE_TEX_SLOT shared_scene =
        Inr (slots_clear 0 BASE_TEX_SLOT shared_scene)
      \<and> textures (slots_clear 0 BASE_TEX_SLOT shared_scene) = textures example_scene
      \<and> images (slots_clear 0 BASE_TEX_SLOT shared_scene) = images example_scene"
    using d' by (simp add: t' shared_scene_store)
  show ?thesis
    using example_create_c example_create_b first second
    by (simp add: created_scene_facts(1,3) shared_scene_store(1,2))
qed

section \<open>The sphere blend table\<close>

lemma warnings_slot_set [simp]: "warnings (slot_set m idx v s) = warnings s"
  by (simp add: slot_set_def material_update_def)

lemma properties_slot_set [simp]:
  "mmd_material (materials (slot_set m' idx' v s) ! m) = mmd_material (materials s ! m)"
proof (cases "m' < length (materials s)")
  case True
  then show ?thesis
    by (cases "m = m'") (simp_all add: materials_slot_set)
next
  case False
  then show ?thesis
    by (simp add: materials_slot_set list_update_beyond)
qed

text \<open>
  C3. Let the material and its SPHERE slot be within reach. When the slot is empty,
  \<open>update_sphere_texture_type\<close> changes nothing. When it holds a slot, the method
  returns a store in which that slot, read back, is enabled with the blend mode
  MULTIPLY, ADD or SUBTRACT for the codes 1, 2 and 3, and is disabled, still in place
  and with the blend mode it had, for every other code (0 among them); the other
  attributes of the slot, every other slot, the properties of the material, the
  textures, the images and the log are as before.
\<close>

theorem update_sphere_texture_type_table:
  assumes "reach self SPHERE_TEX_SLOT s = None"
  shows "(slot_at s self SPHERE_TEX_SLOT = None \<longrightarrow> update_sphere_texture_type self s = Inr s)
    \<and> (\<forall>ts. slot_at s self SPHERE_TEX_SLOT = Some ts \<longrightarrow>
         (\<exists>s' ts'. update_sphere_texture_type self s = Inr s'
            \<and> slot_at s' self SPHERE_TEX_SLOT = Some ts'
            \<and> (let ty = sphere_texture_type (mmd_material (materials s ! self)) in
                 (ty = 1 \<longrightarrow> slot_use ts' \<and> blend_type ts' = ''MULTIPLY'')
               \<and> (ty = 2 \<longrightarrow> slot_use ts' \<and> blend_type ts' = ''ADD'')
               \<and> (ty = 3 \<longrightarrow> slot_use ts' \<and> blend_type ts' = ''SUBTRACT'')
               \<and> (ty \<noteq> 1 \<and> ty \<noteq> 2 \<and> ty \<noteq> 3 \<longrightarrow>
                    \<not> slot_use ts' \<and> blend_type ts' = blend_type ts))
            \<and> use_map_alpha ts' = use_map_alpha ts
            \<and> texture_coords ts' = texture_coords ts
            \<and> slot_texture ts' = slot_texture ts
            \<and> (\<forall>m idx. m \<noteq> self \<or> idx \<noteq> SPHERE_TEX_SLOT \<longrightarrow>
                   slot_at s' m idx = slot_at s m idx)
            \<and> mmd_material (materials s' ! self) = mmd_material (materials s ! self)
            \<and> textures s' = textures s \<and> images s' = images s
            \<and> warnings s' = warnings s))"
proof (intro conjI allI impI)
  assume "slot_at s self SPHERE_TEX_SLOT = None"
  with assms show "update_sphere_texture_type self s = Inr s"
    by (simp add: update_sphere_texture_type_def slot_at_def)
next
  fix ts
  assume ts: "slot_at s self SPHERE_TEX_SLOT = Some ts"
  define ty where "ty = sphere_texture_type (mmd_material (materials s ! self))"
  define ts' where "ts' =
     (if ty = 1 then ts\<lparr>slot_use := True, blend_type := ''MULTIPLY''\<rparr>
      else if ty = 2 then ts\<lparr>slot_use := True, blend_type := ''ADD''\<rparr>
      else if ty = 3 then ts\<lparr>slot_use := True, blend_type := ''SUBTRACT''\<rparr>
      else ts\<lparr>slot_use := False\<rparr>)"
  have ts0: "texture_slots (materials s ! self) ! SPHERE_TEX_SLOT = Some ts"
    using ts by (simp add: slot_at_def)
  have u: "\<And>f. slot_update self SPHERE_TEX_SLOT f s = slot_set self SPHERE_TEX_SLOT (Some (f ts)) s"
    using ts by (rule slot_update_Some)
  have eq: "update_sphere_texture_type self s = Inr (slot_set self SPHERE_TEX_SLOT (Some ts') s)"
    using assms ts0
    by (simp add: update_sphere_texture_type_def Let_def u slot_update_slot_set ts'_def
          ty_def [symmetric])
  have readb: "slot_at (slot_set self SPHERE_TEX_SLOT (Some ts') s) self SPHERE_TEX_SLOT = Some ts'"
    using assms by (rule slot_at_slot_set)
  show "\<exists>s' ts'. update_sphere_texture_type self s = Inr s'
            \<and> slot_at s' self SPHERE_TEX_SLOT = Some ts'
            \<and> (let ty = sphere_texture_type (mmd_material (materials s ! self)) in
                 (ty = 1 \<longrightarrow> slot_use ts' \<and> blend_type ts' = ''MULTIPLY'')
               \<and> (ty = 2 \<longrightarrow> slot_use ts' \<and> blend_type ts' = ''ADD'')
               \<and> (ty = 3 \<longrightarrow> slot_use ts' \<and> blend_type ts' = ''SUBTRACT'')
               \<and> (ty \<noteq> 1 \<and> ty \<noteq> 2 \<and> ty \<noteq> 3 \<longrightarrow>
                    \<not> slot_use ts' \<and> blend_type ts' = blend_type ts))
            \<and> use_map_alpha ts' = use_map_alpha ts
            \<and> texture_coords ts' = texture_coords ts
            \<and> slot_texture ts' = slot_texture ts
            \<and> (\<forall>m idx. m \<noteq> self \<or> idx \<noteq> SPHERE_TEX_SLOT \<longrightarrow>
                   slot_at s' m idx = slot_at s m idx)
            \<and> mmd_material (materials s' ! self) = mmd_material (materials s ! self)
            \<and> textures s' = textures s \<and> images s' = images s
            \<and> warnings s' = warnings s"
  proof (intro exI [of _ "slot_set self SPHERE_TEX_SLOT (Some ts') s"] exI [of _ ts'] conjI)
    show "update_sphere_texture_type self s = Inr (slot_set self SPHERE_TEX_SLOT (Some ts') s)"
      by (rule eq)
    show "slot_at (slot_set self SPHERE_TEX_SLOT (Some ts') s) self SPHERE_TEX_SLOT = Some ts'"
      by (rule readb)
    show "let ty = sphere_texture_type (mmd_material (materials s ! self)) in
                 (ty = 1 \<longrightarrow> slot_use ts' \<and> blend_type ts' = ''MULTIPLY'')
               \<and> (ty = 2 \<longrightarrow> slot_use ts' \<and> blend_type ts' = ''ADD'')
               \<and> (ty = 3 \<longrightarrow> slot_use ts' \<and> blend_type ts' = ''SUBTRACT'')
               \<and> (ty \<noteq> 1 \<and> ty \<noteq> 2 \<and> ty \<noteq> 3 \<longrightarrow>
                    \<not> slot_use ts' \<and> blend_type ts' = blend_type ts)"
      by (simp add: Let_def ty_def [symmetric] ts'_def)
    show "use_map_alpha ts' = use_map_alpha ts" "texture_coords ts' = texture_coords ts"
      "slot_texture ts' = slot_texture ts"
      by (simp_all add: ts'_def)
    show "\<forall>m idx. m \<noteq> self \<or> idx \<noteq> SPHERE_TEX_SLOT \<longrightarrow>
        slot_at (slot_set self SPHERE_TEX_SLOT (Some ts') s) m idx = slot_at s m idx"
      by (simp add: slot_at_slot_set_other)
  qed simp_all
qed

theorem update_sphere_texture_type_table_witness:
  "reach 1 SPHERE_TEX_SLOT example_scene = None
   \<and> slot_at example_scene 1 SPHERE_TEX_SLOT = Some (example_slot (Some 7))
   \<and> sphere_texture_type (mmd_material (materials example_scene ! 1)) = 2
   \<and> (case update_sphere_texture_type 1 example_scene of
         Inl e \<Rightarrow> False
       | Inr s' \<Rightarrow>
           slot_at s' 1 SPHERE_TEX_SLOT =
             Some \<lparr>use_map_alpha = False, texture_coords = ''ORCO'', blend_type = ''ADD'',
                   slot_use = True, slot_texture = Some 7\<rparr>
           \<and> slot_at s' 1 TOON_TEX_SLOT = Some (example_slot (Some 7)))
   \<and> reach 1 SPHERE_TEX_SLOT off_scene = None
   \<and> slot_at off_scene 1 SPHERE_TEX_SLOT = Some (example_slot (Some 7))
   \<and> sphere_texture_type (mmd_material (materials off_scene ! 1)) = 0
   \<and> (case update_sphere_texture_type 1 off_scene of
         Inl e \<Rightarrow> False
       | Inr s' \<Rightarrow>
           slot_at s' 1 SPHERE_TEX_SLOT =
             Some \<lparr>use_map_alpha = False, texture_coords = ''ORCO'', blend_type = ''MIX'',
                   slot_use = False, slot_texture = Some 7\<rparr>)
   \<and> reach 0 SPHERE_TEX_SLOT example_scene = None
   \<and> slot_at example_scene 0 SPHERE_TEX_SLOT = None
   \<and> update_sphere_texture_type 0 example_scene = Inr example_scene"
proof -
  have r: "reach 1 SPHERE_TEX_SLOT example_scene = None" "reach 0 SPHERE_TEX_SLOT example_scene = None"
    "reach 1 SPHERE_TEX_SLOT off_scene = None"
    by code_simp+
  have a: "slot_at example_scene 1 SPHERE_TEX_SLOT = Some (example_slot (Some 7))"
    "slot_at example_scene 0 SPHERE_TEX_SLOT = None"
    "slot_at off_scene 1 SPHERE_TEX_SLOT = Some (example_slot (Some 7))"
    "slot_at example_scene 1 TOON_TEX_SLOT = Some (example_slot (Some 7))"
    by code_simp+
  have t: "sphere_texture_type (mmd_material (materials example_scene ! 1)) = 2"
    "sphere_texture_type (mmd_material (materials off_scene ! 1)) = 0"
    by code_simp+
  note one = update_sphere_texture_type_table [OF r(1), THEN conjunct2, rule_format, OF a(1),
      unfolded t Let_def, simplified]
  from one obtain s' ts' where
    e: "update_sphere_texture_type 1 example_scene = Inr s'"
    and b: "slot_at s' 1 SPHERE_TEX_SLOT = Some ts'"
    and c: "slot_use ts'" "blend_type ts' = ''ADD''"
    and d: "use_map_alpha ts' = use_map_alpha (example_slot (Some 7))"
      "texture_coords ts' = texture_coords (example_slot (Some 7))"
      "slot_texture ts' = slot_texture (example_slot (Some 7))"
    and f: "\<forall>m idx. m \<noteq> 1 \<or> idx \<noteq> SPHERE_TEX_SLOT \<longrightarrow> slot_at s' m idx = slot_at example_scene m idx"
    by (elim exE conjE) simp
  have ts': "ts' = \<lparr>use_map_alpha = False, texture_coords = ''ORCO'', blend_type = ''ADD'',
                   slot_use = True, slot_texture = Some 7\<rparr>"
    using c d by (cases ts') (simp add: example_slot_def)
  have x: "slot_at s' 1 TOON_TEX_SLOT = slot_at example_scene 1 TOON_TEX_SLOT"
    using f by (simp add: TOON_TEX_SLOT_def SPHERE_TEX_SLOT_def)
  have first: "case update_sphere_texture_type 1 example_scene of
         Inl e \<Rightarrow> False
       | Inr s' \<Rightarrow>
           slot_at s' 1 SPHERE_TEX_SLOT =
             Some \<lparr>use_map_alpha = False, texture_coords = ''ORCO'', blend_type = ''ADD'',
                   slot_use = True, slot_texture = Some 7\<rparr>
           \<and> slot_at s' 1 TOON_TEX_SLOT = Some (example_slot (Some 7))"
    by (simp only: e sum.case b ts' x a(4) simp_thms)
  note two = update_sphere_texture_type_table [OF r(3), THEN conjunct2, rule_format, OF a(3),
      unfolded t Let_def, simplified]
  from two obtain s'' ts'' where
    e': "update_sphere_texture_type 1 off_scene = Inr s''"
    and b': "slot_at s'' 1 SPHERE_TEX_SLOT = Some ts''"
    and c': "\<not> slot_use ts''" "blend_type ts'' = blend_type (example_slot (Some 7))"
    and d': "use_map_alpha ts'' = use_map_alpha (example_slot (Some 7))"
      "texture_coords ts'' = texture_coords (example_slot (Some 7))"
      "slot_texture ts'' = slot_texture (example_slot (Some 7))"
    by (elim exE conjE) simp
  have ts'': "ts'' = \<lparr>use_map_alpha = False, texture_coords = ''ORCO'', blend_type = ''MIX'',
                   slot_use = False, slot_texture = Some 7\<rparr>"
    using c' d' by (cases ts'') (simp add: example_slot_def)
  have second: "case update_sphere_texture_type 1 off_scene of
         Inl e \<Rightarrow> False
       | Inr s' \<Rightarrow>
           slot_at s' 1 SPHERE_TEX_SLOT =
             Some \<lparr>use_map_alpha = False, texture_coords = ''ORCO'', blend_type = ''MIX'',
                   slot_use = False, slot_texture = Some 7\<rparr>"
    by (simp only: e' sum.case b' ts'' simp_thms)
  have third: "update_sphere_texture_type 0 example_scene = Inr example_scene"
    using update_sphere_texture_type_table [OF r(2), THEN conjunct1] a(2) by simp
  show ?thesis
    using r a(1,2,3) t first second third by simp
qed

section \<open>The shadow flags\<close>

text \<open>
  C8. For every material of the store \<open>update_self_shadow_map\<close> returns without
  error. In the store it returns, the material's \<open>use_cast_buffer_shadows\<close> is the
  property \<open>enabled_self_shadow_map\<close>, whatever the host; its \<open>use_cast_shadows\<close> is
  that value too when the material had the attribute, and is still absent when it was
  absent. The properties and the other attributes of the material, every other
  material, the textures and the images are as before.
\<close>

theorem update_self_shadow_map_flags:
  assumes "self < length (materials s)"
  shows "\<exists>s'. update_self_shadow_map self s = Inr s'
           \<and> use_cast_buffer_shadows (materials s' ! self) =
               enabled_self_shadow_map (mmd_material (materials s ! self))
           \<and> use_cast_shadows (materials s' ! self) =
               (case use_cast_shadows (materials s ! self) of
                  None \<Rightarrow> None
                | Some old \<Rightarrow> Some (enabled_self_shadow_map (mmd_material (materials s ! self))))
           \<and> mmd_material (materials s' ! self) = mmd_material (materials s ! self)
           \<and> texture_slots (materials s' ! self) = texture_slots (materials s ! self)
           \<and> use_shadows (materials s' ! self) = use_shadows (materials s ! self)
           \<and> use_transparent_shadows (materials s' ! self) =
               use_transparent_shadows (materials s ! self)
           \<and> length (materials s') = length (materials s)
           \<and> (\<forall>m. m \<noteq> self \<longrightarrow> materials s' ! m = materials s ! m)
           \<and> textures s' = textures s \<and> images s' = images s"
proof (cases "use_cast_shadows (materials s ! self)")
  case None
  with assms show ?thesis
    by (simp add: update_self_shadow_map_def material_update_def Let_def)
next
  case (Some old)
  with assms show ?thesis
    by (simp add: update_self_shadow_map_def material_update_def Let_def)
qed

theorem update_self_shadow_map_flags_witness:
  "(1::nat) < length (materials example_scene)
   \<and> enabled_self_shadow_map (mmd_material (materials example_scene ! 1))
   \<and> use_cast_buffer_shadows (materials example_scene ! 1) = False
   \<and> use_cast_shadows (materials example_scene ! 1) = Some False
   \<and> (case update_self_shadow_map 1 example_scene of
         Inl e \<Rightarrow> False
       | Inr s' \<Rightarrow> use_cast_buffer_shadows (materials s' ! 1) = True
                  \<and> use_cast_shadows (materials s' ! 1) = Some True
                  \<and> materials s' ! 0 = materials example_scene ! 0)
   \<and> (1::nat) < length (materials legacy_scene)
   \<and> use_cast_shadows (materials legacy_scene ! 1) = None
   \<and> (case update_self_shadow_map 1 legacy_scene of
         Inl e \<Rightarrow> False
       | Inr s' \<Rightarrow> use_cast_buffer_shadows (materials s' ! 1) = True
                  \<and> use_cast_shadows (materials s' ! 1) = None)"
proof -
  have l: "(1::nat) < length (materials example_scene)"
    and c: "use_cast_shadows (materials example_scene ! 1) = Some False"
    and f: "enabled_self_shadow_map (mmd_material (materials example_scene ! 1)) = True"
    and g: "use_cast_buffer_shadows (materials example_scene ! 1) = False"
    by code_simp+
  have l': "(1::nat) < length (materials legacy_scene)"
    and c': "use_cast_shadows (materials legacy_scene ! 1) = None"
    and f': "enabled_self_shadow_map (mmd_material (materials legacy_scene ! 1)) = True"
    by code_simp+
  from update_self_shadow_map_flags [OF l, unfolded c f option.case] obtain s' where
    e: "update_self_shadow_map 1 example_scene = Inr s'"
    and b: "use_cast_buffer_shadows (materials s' ! 1) = True"
      "use_cast_shadows (materials s' ! 1) = Some True"
    and o: "\<forall>m. m \<noteq> 1 \<longrightarrow> materials s' ! m = materials example_scene ! m"
    by (elim exE conjE)
  from o have o0: "materials s' ! 0 = materials example_scene ! 0"
    by simp
  have first: "case update_self_shadow_map 1 example_scene of
         Inl e \<Rightarrow> False
       | Inr s' \<Rightarrow> use_cast_buffer_shadows (materials s' ! 1) = True
                  \<and> use_cast_shadows (materials s' ! 1) = Some True
                  \<and> materials s' ! 0 = materials example_scene ! 0"
    by (simp only: e sum.case b o0 simp_thms)
  from update_self_shadow_map_flags [OF l', unfolded c' f' option.case] obtain s'' where
    e': "update_self_shadow_map 1 legacy_scene = Inr s''"
    and b': "use_cast_buffer_shadows (materials s'' ! 1) = True"
      "use_cast_shadows (materials s'' ! 1) = None"
    by (elim exE conjE)
  have second: "case update_self_shadow_map 1 legacy_scene of
         Inl e \<Rightarrow> False
       | Inr s' \<Rightarrow> use_cast_buffer_shadows (materials s' ! 1) = True
                  \<and> use_cast_shadows (materials s' ! 1) = None"
    by (simp only: e' sum.case b' simp_thms)
  show ?thesis
    using l c f g first l' c' second by simp
qed

section \<open>Loading twice\<close>

text \<open>
  C2, as the code has it. Let the path be resolved (an image filed under it is
  recognised as its file) on a host whose loader files what it loads as a file image
  under the path it was given, and let every image reference of the store stand for one
  image. Then \<open>load_image\<close> returns an image of the store it leaves, which is the file
  of the path, and a second call with the same path returns the same reference and
  changes nothing; \<open>load_texture\<close> returns a texture of the store it leaves, an image
  texture whose image is the file of the path, and a second call with the same path
  returns the same reference and changes nothing.
\<close>

theorem load_twice_same_instance:
  assumes "resolved h filepath" and "loads_as_file h filepath"
    and "distinct (map fst (images s))"
  shows "(let i = fst (load_image h filepath s); s1 = snd (load_image h filepath s) in
            load_image h filepath s1 = (i, s1)
          \<and> (\<exists>img. (i, img) \<in> set (images s1) \<and> map_of (images s1) i = Some img
                 \<and> same_image_file h (Some img) filepath))
       \<and> (let t = fst (load_texture h filepath s); s1 = snd (load_texture h filepath s) in
            load_texture h filepath s1 = (t, s1)
          \<and> (\<exists>tex. (t, tex) \<in> set (textures s1) \<and> tex_type tex = ''IMAGE''
                 \<and> same_image_file h (image_of s1 tex) filepath))"
proof -
  from load_image_post(1) [OF assms] obtain img where
    fi: "find_image h filepath (snd (load_image h filepath s)) =
           Some (fst (load_image h filepath s), img)"
    and mi: "map_of (images (snd (load_image h filepath s))) (fst (load_image h filepath s)) =
           Some img"
    and si: "same_image_file h (Some img) filepath"
    by blast
  have ii: "(fst (load_image h filepath s), img) \<in> set (images (snd (load_image h filepath s)))"
    using find_Some_mem [OF fi [unfolded find_image_def]] by simp
  from load_texture_post [OF assms] obtain tex where
    ft: "find_texture h filepath (snd (load_texture h filepath s)) =
           Some (fst (load_texture h filepath s), tex)"
    by blast
  have it: "(fst (load_texture h filepath s), tex) \<in> set (textures (snd (load_texture h filepath s)))"
    and pt: "tex_type tex = ''IMAGE''"
      "same_image_file h (image_of (snd (load_texture h filepath s)) tex) filepath"
    using find_Some_mem [OF ft [unfolded find_texture_def]] by simp_all
  have a: "\<exists>img. (fst (load_image h filepath s), img) \<in> set (images (snd (load_image h filepath s)))
      \<and> map_of (images (snd (load_image h filepath s))) (fst (load_image h filepath s)) = Some img
      \<and> same_image_file h (Some img) filepath"
    using ii mi si by blast
  have b: "\<exists>tex. (fst (load_texture h filepath s), tex) \<in> set (textures (snd (load_texture h filepath s)))
      \<and> tex_type tex = ''IMAGE''
      \<and> same_image_file h (image_of (snd (load_texture h filepath s)) tex) filepath"
    using it pt by blast
  show ?thesis
    using a b by (simp add: Let_def load_image_found [OF fi] load_texture_found [OF ft])
qed

lemma example_loaded_twice_c:
  "fst (load_image example_host ''c.png'' (snd (load_image example_host ''c.png'' example_scene))) = 4"
  "fst (load_texture example_host ''c.png''
         (snd (load_texture example_host ''c.png'' example_scene))) = 8"
  "map_of (images (snd (load_image example_host ''c.png'' example_scene))) 4 =
     Some \<lparr>img_name = ''c.png'', img_source = ''FILE'', img_filepath = ''c.png'',
           img_use_alpha = True, img_size = (1, 1)\<rparr>"
  "map_of (textures (snd (load_texture example_host ''c.png'' example_scene))) 8 =
     Some \<lparr>tex_name = ''c.png'', tex_type = ''IMAGE'', tex_image = Some 4, tex_use_alpha = True,
           tex_extension = ''REPEAT''\<rparr>"
  by code_simp+

theorem load_twice_same_instance_witness:
  "resolved example_host ''c.png''
   \<and> loads_as_file example_host ''c.png''
   \<and> distinct (map fst (images example_scene))
   \<and> fst (load_image example_host ''c.png'' example_scene) = 4
   \<and> load_image example_host ''c.png'' (snd (load_image example_host ''c.png'' example_scene)) =
       (4, snd (load_image example_host ''c.png'' example_scene))
   \<and> map_of (images (snd (load_image example_host ''c.png'' example_scene))) 4 =
       Some \<lparr>img_name = ''c.png'', img_source = ''FILE'', img_filepath = ''c.png'',
             img_use_alpha = True, img_size = (1, 1)\<rparr>
   \<and> fst (load_texture example_host ''c.png'' example_scene) = 8
   \<and> load_texture example_host ''c.png'' (snd (load_texture example_host ''c.png'' example_scene)) =
       (8, snd (load_texture example_host ''c.png'' example_scene))
   \<and> map_of (textures (snd (load_texture example_host ''c.png'' example_scene))) 8 =
       Some \<lparr>tex_name = ''c.png'', tex_type = ''IMAGE'', tex_image = Some 4, tex_use_alpha = True,
             tex_extension = ''REPEAT''\<rparr>"
proof -
  have r: "resolved example_host ''c.png''"
    by (simp add: resolved_def example_host_def)
  have l: "loads_as_file example_host ''c.png''"
    by (simp add: loads_as_file_def example_host_load)
  have d: "distinct (map fst (images example_scene))"
    by (simp add: example_scene_refs)
  note th = load_twice_same_instance [OF r l d, unfolded Let_def example_load_image_c
      example_load_texture_c]
  have a: "load_image example_host ''c.png'' (snd (load_image example_host ''c.png'' example_scene)) =
       (4, snd (load_image example_host ''c.png'' example_scene))"
    using th by (elim conjE)
  have b: "load_texture example_host ''c.png''
        (snd (load_texture example_host ''c.png'' example_scene)) =
       (8, snd (load_texture example_host ''c.png'' example_scene))"
    using th by (elim conjE)
  show ?thesis
    using r l d a b
    by (simp add: example_load_image_c example_load_texture_c example_loaded_twice_c(3,4))
qed

text \<open>
  C2 as stated, for every file path, fails where the host files what it loads as
  something else than a file image: on \<open>movie_host\<close> the path \<^verbatim>\<open>m.avi\<close> is resolved,
  the first \<open>load_image\<close> returns a new image 4, and the second, which looks for an image
  of source \<open>FILE\<close>, returns another new image 5; \<open>load_texture\<close> returns the textures 8
  and 9.
\<close>

theorem load_twice_other_instance:
  "resolved movie_host ''m.avi''
   \<and> distinct (map fst (images example_scene))
   \<and> fst (load_image movie_host ''m.avi'' example_scene) = 4
   \<and> fst (load_image movie_host ''m.avi''
            (snd (load_image movie_host ''m.avi'' example_scene))) = 5
   \<and> fst (load_texture movie_host ''m.avi'' example_scene) = 8
   \<and> fst (load_texture movie_host ''m.avi''
            (snd (load_texture movie_host ''m.avi'' example_scene))) = 9"
  by code_simp

section \<open>Creating a toon texture\<close>

lemma warnings_image_update [simp]: "warnings (image_update i f s) = warnings s"
  by (simp add: image_update_def)

lemma warnings_texture_update [simp]: "warnings (texture_update t f s) = warnings s"
  by (simp add: texture_update_def)

lemma find_image_same_images:
  "images s' = images s \<Longrightarrow> find_image h filepath s' = find_image h filepath s"
  by (simp add: find_image_def)

lemma map_of_found:
  assumes "find P xs = Some (k, v)" and "distinct (map fst xs)"
  shows "map_of xs k = Some v"
  using find_Some_mem [OF assms(1)] assms(2) by simp

text \<open>What \<open>load_image\<close> returns, whatever the host does.\<close>

lemma load_image_result:
  assumes "distinct (map fst (images s))"
  shows "\<exists>img. map_of (images (snd (load_image h filepath s))) (fst (load_image h filepath s)) =
               Some img
           \<and> (case find_image h filepath s of
                 Some (r, y) \<Rightarrow>
                   fst (load_image h filepath s) = r \<and> img = y
                   \<and> snd (load_image h filepath s) = s
               | None \<Rightarrow>
                   fst (load_image h filepath s) \<notin> set (map fst (images s))
                   \<and> (case images_load h filepath of
                         Some loaded \<Rightarrow>
                           img = loaded \<and> warnings (snd (load_image h filepath s)) = warnings s
                       | None \<Rightarrow>
                           img = placeholder_image h filepath
                           \<and> warnings (snd (load_image h filepath s)) =
                               warnings s @ [warning_line filepath]))"
proof (cases "find_image h filepath s")
  case (Some a)
  obtain r y where a: "a = (r, y)" by (cases a)
  have "map_of (images s) r = Some y"
    using Some assms unfolding a find_image_def by (rule map_of_found)
  then show ?thesis
    using Some by (simp add: a load_image_found)
next
  case None
  let ?r = "fresh (map fst (images s) @ tex_img_refs s)"
  have new: "?r \<notin> fst ` set (images s)" by (rule fresh_image_new)
  have t: "tex_img_refs (s\<lparr>warnings := w\<rparr>) = tex_img_refs s" for w
    by (simp add: tex_img_refs_def)
  show ?thesis
  proof (cases "images_load h filepath")
    case (Some loaded)
    have "load_image h filepath s = images_add h loaded s"
      using None Some by (simp add: load_image_def)
    then show ?thesis
      using None Some new by (simp add: images_add_eq map_of_insert_at_new)
  next
    case no: None
    have "load_image h filepath s =
        (?r, s\<lparr>warnings := warnings s @ [warning_line filepath],
               images := insert_at
                 (new_index h (basename h filepath) (map (\<lambda>(k, i). img_name i) (images s)))
                 (?r, placeholder_image h filepath) (images s)\<rparr>)"
      using None no new
      by (simp add: load_image_def images_new_def images_add_eq Let_def t image_update_insert_at
            placeholder_image_def)
    then show ?thesis
      using None no new by (simp add: map_of_insert_at_new)
  qed
qed

lemma toon_createdI:
  assumes "result = Inr s'" and "slot_at s' self TOON_TEX_SLOT = Some slot"
    and "texture_coords slot = ''NORMAL''" and "blend_type slot = ''MULTIPLY''"
    and "slot_texture slot = Some t" and "map_of (textures s') t = Some tex"
    and "tex_type tex = ''IMAGE''" and "\<not> tex_use_alpha tex" and "tex_extension tex = ''EXTEND''"
    and "tex_image tex = Some i" and "map_of (images s') i = Some img"
    and "\<not> img_use_alpha img" and "texture_from_path h filepath s s' t tex i img"
  shows "toon_created h self filepath s result"
  using assms by (simp add: toon_created_def)

lemma create_toon_texture_found:
  assumes r: "reach self TOON_TEX_SLOT s = None"
    and f: "find_texture h filepath s = Some (t, x)"
    and d: "distinct (map fst (textures s))"
  shows "toon_created h self filepath s (create_toon_texture h self filepath s)"
    and "\<forall>s'. create_toon_texture h self filepath s = Inr s' \<longrightarrow>
           (\<forall>m idx. m \<noteq> self \<or> idx \<noteq> TOON_TEX_SLOT \<longrightarrow> slot_at s' m idx = slot_at s m idx)"
proof -
  note tx = find_texture_Some(1) [OF f d]
  from find_texture_Some(2) [OF f d] obtain i img where
    i: "tex_image x = Some i" and img: "map_of (images s) i = Some img"
    by blast
  have ty: "tex_type x = ''IMAGE''"
    using find_Some_mem [OF f [unfolded find_texture_def]] by simp
  define slot where "slot = (slot_defaults h)
      \<lparr>texture_coords := ''NORMAL'', blend_type := ''MULTIPLY'', slot_texture := Some t\<rparr>"
  define s5 where "s5 = slot_set self TOON_TEX_SLOT (Some slot) s"
  define s' where "s' = texture_update t (\<lambda>t. t\<lparr>tex_extension := ''EXTEND''\<rparr>)
           (image_update i (\<lambda>x. x\<lparr>img_use_alpha := False\<rparr>)
             (texture_update t (\<lambda>t. t\<lparr>tex_use_alpha := False\<rparr>) s5))"
  have res: "create_toon_texture h self filepath s = Inr s'"
    by (simp add: create_toon_texture_dedup [OF r f d i img] s'_def s5_def slot_def)
  have m: "materials s' = materials s5"
    by (simp add: s'_def)
  have sl: "slot_at s' self TOON_TEX_SLOT = Some slot"
    using r by (simp add: slot_at_same_materials [OF m] s5_def slot_at_slot_set)
  have te: "map_of (textures s') t =
      Some (x\<lparr>tex_use_alpha := False, tex_extension := ''EXTEND''\<rparr>)"
    using tx by (simp add: s'_def s5_def map_of_texture_update)
  have im: "map_of (images s') i = Some (img\<lparr>img_use_alpha := False\<rparr>)"
    using img by (simp add: s'_def s5_def map_of_image_update)
  have fp: "texture_from_path h filepath s s' t
      (x\<lparr>tex_use_alpha := False, tex_extension := ''EXTEND''\<rparr>) i (img\<lparr>img_use_alpha := False\<rparr>)"
    by (simp add: texture_from_path_def f img)
  show "toon_created h self filepath s (create_toon_texture h self filepath s)"
    by (rule toon_createdI [OF res sl _ _ _ te _ _ _ _ im _ fp]) (simp_all add: slot_def ty i)
  have "slot_at s' m idx = slot_at s m idx" if "m \<noteq> self \<or> idx \<noteq> TOON_TEX_SLOT" for m idx
    using that by (simp add: slot_at_same_materials [OF m] s5_def slot_at_slot_set_other)
  then show "\<forall>s'. create_toon_texture h self filepath s = Inr s' \<longrightarrow>
           (\<forall>m idx. m \<noteq> self \<or> idx \<noteq> TOON_TEX_SLOT \<longrightarrow> slot_at s' m idx = slot_at s m idx)"
    by (simp add: res)
qed

lemma create_toon_texture_new:
  assumes r: "reach self TOON_TEX_SLOT s = None"
    and f: "find_texture h filepath s = None"
    and d: "distinct (map fst (images s))"
  shows "toon_created h self filepath s (create_toon_texture h self filepath s)"
    and "\<forall>s'. create_toon_texture h self filepath s = Inr s' \<longrightarrow>
           (\<forall>m idx. m \<noteq> self \<or> idx \<noteq> TOON_TEX_SLOT \<longrightarrow> slot_at s' m idx = slot_at s m idx)"
proof -
  define d1 where "d1 = (slot_defaults h)\<lparr>slot_texture := None\<rparr>"
  define d2 where "d2 = d1\<lparr>texture_coords := ''NORMAL''\<rparr>"
  define d3 where "d3 = d2\<lparr>blend_type := ''MULTIPLY''\<rparr>"
  define s3 where "s3 = slot_set self TOON_TEX_SLOT (Some d3) s"
  define t where "t = fresh (map fst (textures s3) @ slot_tex_refs s3)"
  define n where "n = new_index h (display_name_from_filepath h filepath)
                        (map (\<lambda>(k, t). tex_name t) (textures s3))"
  define tex0 where "tex0 = (texture_defaults h)
      \<lparr>tex_name := display_name_from_filepath h filepath, tex_type := ''IMAGE'', tex_image := None\<rparr>"
  define s1 where "s1 = s3\<lparr>textures := insert_at n (t, tex0) (textures s3)\<rparr>"
  define i where "i = fst (load_image h filepath s1)"
  define s2 where "s2 = snd (load_image h filepath s1)"
  define tex1 where "tex1 = tex0\<lparr>tex_image := Some i\<rparr>"
  define s4 where "s4 = texture_update t (\<lambda>t. t\<lparr>tex_image := Some i\<rparr>) s2"
  define d5 where "d5 = d3\<lparr>slot_texture := Some t\<rparr>"
  define s5 where "s5 = slot_set self TOON_TEX_SLOT (Some d5) s4"
  define s6 where "s6 = image_update i (\<lambda>x. x\<lparr>img_use_alpha := False\<rparr>)
           (texture_update t (\<lambda>t. t\<lparr>tex_use_alpha := False\<rparr>) s5)"
  define s7 where "s7 = texture_update t (\<lambda>t. t\<lparr>tex_extension := ''EXTEND''\<rparr>) s6"
  have c1: "slots_create h self TOON_TEX_SLOT s = slot_set self TOON_TEX_SLOT (Some d1) s"
    by (simp add: slots_create_def d1_def)
  have c2: "slot_update self TOON_TEX_SLOT (\<lambda>ts. ts\<lparr>texture_coords := ''NORMAL''\<rparr>)
      (slot_set self TOON_TEX_SLOT (Some d1) s) = slot_set self TOON_TEX_SLOT (Some d2) s"
    unfolding d2_def by (rule slot_update_slot_set [OF r])
  have c3: "slot_update self TOON_TEX_SLOT (\<lambda>ts. ts\<lparr>blend_type := ''MULTIPLY''\<rparr>)
      (slot_set self TOON_TEX_SLOT (Some d2) s) = s3"
    unfolding d3_def s3_def by (rule slot_update_slot_set [OF r])
  have st3: "textures s3 = textures s" "images s3 = images s" "warnings s3 = warnings s"
    by (simp_all add: s3_def)
  have "find_texture h filepath s3 = find_texture h filepath s"
    by (rule find_texture_same_store) (simp_all add: st3)
  then have f3: "find_texture h filepath s3 = None"
    using f by simp
  have new: "textures_new h (display_name_from_filepath h filepath) ''IMAGE'' s3 = (t, s1)"
    by (simp add: textures_new_eq t_def n_def tex0_def s1_def)
  have l: "load_texture h filepath s3 = (t, s4)"
    by (simp add: load_texture_new [OF f3] new s4_def i_def s2_def)
  have t_new: "t \<notin> fst ` set (textures s)"
    using fresh_texture_new [of s3] by (simp add: t_def st3)
  have st1: "images s1 = images s" "warnings s1 = warnings s" "materials s1 = materials s3"
    by (simp_all add: s1_def st3)
  have d1': "distinct (map fst (images s1))"
    using d by (simp add: st1)
  have fi1: "find_image h filepath s1 = find_image h filepath s"
    by (rule find_image_same_images) (simp add: st1)
  from load_image_result [OF d1', of h filepath] obtain img0 where
    img0: "map_of (images s2) i = Some img0"
    and origin: "case find_image h filepath s of
                 Some (r, y) \<Rightarrow> i = r \<and> img0 = y \<and> s2 = s1
               | None \<Rightarrow>
                   i \<notin> set (map fst (images s))
                   \<and> (case images_load h filepath of
                         Some loaded \<Rightarrow> img0 = loaded \<and> warnings s2 = warnings s
                       | None \<Rightarrow>
                           img0 = placeholder_image h filepath
                           \<and> warnings s2 = warnings s @ [warning_line filepath])"
    unfolding fi1 i_def [symmetric] s2_def [symmetric] st1 by blast
  have tex2: "textures s2 = insert_at n (t, tex0) (textures s)"
    by (simp add: s2_def s1_def st3)
  have m2: "materials s2 = materials s3"
    by (simp add: s2_def st1)
  have tex4: "textures s4 = insert_at n (t, tex1) (textures s)"
    using t_new by (simp add: s4_def texture_update_def tex2 update_insert_at_new tex1_def)
  have m4: "materials s4 = materials s3"
    by (simp add: s4_def m2)
  have r3: "reach self TOON_TEX_SLOT s3 = None"
    using r by (simp add: s3_def)
  have r4: "reach self TOON_TEX_SLOT s4 = None"
    using r3 by (simp add: reach_same_materials [OF m4])
  have a4: "slot_at s4 self TOON_TEX_SLOT = Some d3"
    using r by (simp add: slot_at_same_materials [OF m4] s3_def slot_at_slot_set)
  have c5: "slot_update self TOON_TEX_SLOT (\<lambda>ts. ts\<lparr>slot_texture := Some t\<rparr>) s4 = s5"
    unfolding s5_def d5_def by (rule slot_update_Some [OF a4])
  have mt5: "map_of (textures s5) t = Some tex1"
    using t_new by (simp add: s5_def tex4 map_of_insert_at_new)
  have mi5: "map_of (images s5) i = Some img0"
    using img0 by (simp add: s5_def s4_def)
  have ti: "tex_image tex1 = Some i"
    by (simp add: tex1_def)
  have c6: "clear_use_alpha t s5 = Inr s6"
    unfolding s6_def by (rule clear_use_alpha_Inr [OF mt5 ti mi5])
  have res: "create_toon_texture h self filepath s = Inr s7"
    by (simp only: create_toon_texture_def r option.case Let_def c1 c2 c3 l prod.case c5 c6
          sum.case s7_def)
  have m7: "materials s7 = materials s5"
    by (simp add: s7_def s6_def)
  have sl: "slot_at s7 self TOON_TEX_SLOT = Some d5"
    using r4 by (simp add: slot_at_same_materials [OF m7] s5_def slot_at_slot_set)
  have te: "map_of (textures s7) t = Some (tex1\<lparr>tex_use_alpha := False, tex_extension := ''EXTEND''\<rparr>)"
    using mt5 by (simp add: s7_def s6_def map_of_texture_update)
  have im: "map_of (images s7) i = Some (img0\<lparr>img_use_alpha := False\<rparr>)"
    using mi5 by (simp add: s7_def s6_def map_of_image_update)
  have w7: "warnings s7 = warnings s2"
    by (simp add: s7_def s6_def s5_def s4_def)
  have fp: "texture_from_path h filepath s s7 t
      (tex1\<lparr>tex_use_alpha := False, tex_extension := ''EXTEND''\<rparr>) i (img0\<lparr>img_use_alpha := False\<rparr>)"
    using origin t_new
    by (auto simp: texture_from_path_def f w7 tex1_def tex0_def split: option.splits)
  show "toon_created h self filepath s (create_toon_texture h self filepath s)"
    by (rule toon_createdI [OF res sl _ _ _ te _ _ _ _ im _ fp])
       (simp_all add: d5_def d3_def d2_def d1_def tex1_def tex0_def)
  have "slot_at s7 m idx = slot_at s m idx" if "m \<noteq> self \<or> idx \<noteq> TOON_TEX_SLOT" for m idx
  proof -
    have "slot_at s7 m idx = slot_at s4 m idx"
      using that by (simp add: slot_at_same_materials [OF m7] s5_def slot_at_slot_set_other)
    also have "\<dots> = slot_at s m idx"
      using that by (simp add: slot_at_same_materials [OF m4] s3_def slot_at_slot_set_other)
    finally show ?thesis .
  qed
  then show "\<forall>s'. create_toon_texture h self filepath s = Inr s' \<longrightarrow>
           (\<forall>m idx. m \<noteq> self \<or> idx \<noteq> TOON_TEX_SLOT \<longrightarrow> slot_at s' m idx = slot_at s m idx)"
    by (simp add: res)
qed

section \<open>Updating the toon texture\<close>

lemma slot_at_cleared:
  assumes "reach self idx s = None" and "materials s' = materials (slots_clear self idx s)"
  shows "slot_at s' self idx = None"
    and "m \<noteq> self \<or> j \<noteq> idx \<Longrightarrow> slot_at s' m j = slot_at s m j"
proof -
  have e: "slot_at s' m j = slot_at (slot_set self idx None s) m j" for m j
    using assms(2) by (simp add: slot_at_def slots_clear_def)
  show "slot_at s' self idx = None"
    unfolding e using assms(1) by (rule slot_at_slot_set)
  show "slot_at s' m j = slot_at s m j" if "m \<noteq> self \<or> j \<noteq> idx"
    unfolding e using that by (rule slot_at_slot_set_other)
qed

lemma remove_texture_materials:
  assumes r: "reach self idx s = None" and a: "slot_at s self idx = Some slot"
    and st: "slot_texture_in_store s self idx"
  shows "\<exists>s'. remove_texture self idx s = Inr s'
           \<and> materials s' = materials (slots_clear self idx s)"
proof (cases "slot_texture slot")
  case None
  have "remove_texture self idx s = Inr (slots_clear self idx s)"
    using r a None by (simp add: remove_texture_def slot_at_def)
  then show ?thesis by simp
next
  case t: (Some t)
  have "t \<in> fst ` set (textures s)"
    using st by (simp add: slot_texture_in_store_def a t)
  then have "\<exists>tex. map_of (textures s) t = Some tex"
    by (rule map_of_in_store)
  then obtain tex where tex: "map_of (textures s) t = Some tex" ..
  note eq = remove_texture_held [OF r a t tex]
  show ?thesis
  proof (cases "tex_users (slots_clear self idx s) t < 1")
    case False
    then have "remove_texture self idx s = Inr (slots_clear self idx s)"
      by (simp only: eq if_False)
    then show ?thesis by simp
  next
    case True
    show ?thesis
    proof (cases "tex_image tex")
      case None
      have "remove_texture self idx s = Inr (textures_remove t
          (texture_update t (\<lambda>t. t\<lparr>tex_image := None\<rparr>) (slots_clear self idx s)))"
        using True by (simp only: eq if_True None option.case)
      then show ?thesis by simp
    next
      case (Some i)
      show ?thesis
      proof (cases "img_users (textures_remove t
          (texture_update t (\<lambda>t. t\<lparr>tex_image := None\<rparr>) (slots_clear self idx s))) i < 1")
        case yes: True
        have "remove_texture self idx s = Inr (images_remove i (textures_remove t
            (texture_update t (\<lambda>t. t\<lparr>tex_image := None\<rparr>) (slots_clear self idx s))))"
          using True yes by (simp only: eq if_True Some option.case)
        then show ?thesis by simp
      next
        case no: False
        have "remove_texture self idx s = Inr (textures_remove t
            (texture_update t (\<lambda>t. t\<lparr>tex_image := None\<rparr>) (slots_clear self idx s)))"
          using True no by (simp only: eq if_True if_False Some option.case)
        then show ?thesis by simp
      qed
    qed
  qed
qed

lemma remove_texture_slot:
  assumes r: "reach self idx s = None" and st: "slot_texture_in_store s self idx"
  shows "\<exists>s'. remove_texture self idx s = Inr s' \<and> slot_at s' self idx = None
           \<and> (\<forall>m j. m \<noteq> self \<or> j \<noteq> idx \<longrightarrow> slot_at s' m j = slot_at s m j)"
proof (cases "slot_at s self idx")
  case None
  then have "remove_texture self idx s = Inr s"
    using r by (simp add: remove_texture_def slot_at_def)
  then show ?thesis
    using None by simp
next
  case (Some slot)
  from remove_texture_materials [OF r Some st] obtain s' where
    e: "remove_texture self idx s = Inr s'"
    and m: "materials s' = materials (slots_clear self idx s)"
    by (elim exE conjE)
  have "slot_at s' self idx = None"
    using r m by (rule slot_at_cleared(1))
  moreover have "\<forall>m j. m \<noteq> self \<or> j \<noteq> idx \<longrightarrow> slot_at s' m j = slot_at s m j"
    using slot_at_cleared(2) [OF r m] by simp
  ultimately show ?thesis
    using e by (intro exI [of _ s']) simp
qed

text \<open>
  C4. Let the material and its TOON slot be within reach, in a store whose
  references each stand for one object and whose TOON slot refers to a texture of the
  store, if to any. \<open>update_toon_texture\<close> takes exactly one of three branches. With
  \<open>is_shared_toon_texture\<close> set, it returns a store in which the toon texture of the
  material is created from the path that \<open>resolve_ncase\<close> makes of the shared toon
  folder joined with \<open>toon<NN>.bmp\<close>, where \<open>NN\<close> is \<open>shared_toon_texture + 1\<close> in two
  digits, filled with a zero (index 2 gives \<open>toon03.bmp\<close>). Otherwise, with a
  \<open>toon_texture\<close> that is not empty, it returns a store in which the toon texture is
  created from that path as it is. Otherwise it returns a store in which the TOON slot
  of the material is empty. In every branch every other slot holds what it held.
\<close>

theorem update_toon_texture_branches:
  assumes "reach self TOON_TEX_SLOT s = None" and "distinct_refs s"
    and "slot_texture_in_store s self TOON_TEX_SLOT"
  shows "(let mmd_mat = mmd_material (materials s ! self);
              shared_path =
                resolve_ncase h
                  (path_join h (shared_toon_folder h)
                    (''toon'' @ format_02d (shared_toon_texture mmd_mat + 1) @ ''.bmp''))
          in (is_shared_toon_texture mmd_mat \<longrightarrow>
                toon_created h self shared_path s (update_toon_texture h self s))
           \<and> (\<not> is_shared_toon_texture mmd_mat \<and> toon_texture mmd_mat \<noteq> [] \<longrightarrow>
                toon_created h self (toon_texture mmd_mat) s (update_toon_texture h self s))
           \<and> (\<not> is_shared_toon_texture mmd_mat \<and> toon_texture mmd_mat = [] \<longrightarrow>
                toon_removed self (update_toon_texture h self s)))
       \<and> (\<forall>s' m idx. update_toon_texture h self s = Inr s' \<and> (m \<noteq> self \<or> idx \<noteq> TOON_TEX_SLOT) \<longrightarrow>
             slot_at s' m idx = slot_at s m idx)
       \<and> ''toon'' @ format_02d (2 + 1) @ ''.bmp'' = ''toon03.bmp''
       \<and> (\<forall>n. 0 \<le> n \<and> n < 10 \<longrightarrow> format_02d n = [CHR ''0'', ''0123456789'' ! nat n])
       \<and> (\<forall>n. 10 \<le> n \<and> n < 100 \<longrightarrow>
             format_02d n = [''0123456789'' ! (nat n div 10), ''0123456789'' ! (nat n mod 10)])"
proof -
  have len: "self < length (materials s)"
    using assms(1) by (simp add: reach_None)
  have dt: "distinct (map fst (textures s))" and di: "distinct (map fst (images s))"
    using assms(2) by (simp_all add: distinct_refs_def)
  have created: "toon_created h self p s (create_toon_texture h self p s)" for p
  proof (cases "find_texture h p s")
    case None
    then show ?thesis by (rule create_toon_texture_new(1) [OF assms(1) _ di])
  next
    case (Some a)
    then show ?thesis
      by (cases a) (simp add: create_toon_texture_found(1) [OF assms(1) _ dt])
  qed
  have frame_create: "\<forall>s'. create_toon_texture h self p s = Inr s' \<longrightarrow>
      (\<forall>m idx. m \<noteq> self \<or> idx \<noteq> TOON_TEX_SLOT \<longrightarrow> slot_at s' m idx = slot_at s m idx)" for p
  proof (cases "find_texture h p s")
    case None
    then show ?thesis by (rule create_toon_texture_new(2) [OF assms(1) _ di])
  next
    case (Some a)
    obtain t x where "a = (t, x)" by (cases a)
    with Some have "find_texture h p s = Some (t, x)" by simp
    then show ?thesis by (rule create_toon_texture_found(2) [OF assms(1) _ dt])
  qed
  from remove_texture_slot [OF assms(1,3)] obtain s0 where
    rem: "remove_texture self TOON_TEX_SLOT s = Inr s0"
    and gone: "slot_at s0 self TOON_TEX_SLOT = None"
    and frame_remove: "\<forall>m j. m \<noteq> self \<or> j \<noteq> TOON_TEX_SLOT \<longrightarrow> slot_at s0 m j = slot_at s m j"
    by blast
  have removed: "toon_removed self (remove_texture self TOON_TEX_SLOT s)"
    by (simp add: toon_removed_def rem gone)
  have branches: "let mmd_mat = mmd_material (materials s ! self);
              shared_path =
                resolve_ncase h
                  (path_join h (shared_toon_folder h)
                    (''toon'' @ format_02d (shared_toon_texture mmd_mat + 1) @ ''.bmp''))
          in (is_shared_toon_texture mmd_mat \<longrightarrow>
                toon_created h self shared_path s (update_toon_texture h self s))
           \<and> (\<not> is_shared_toon_texture mmd_mat \<and> toon_texture mmd_mat \<noteq> [] \<longrightarrow>
                toon_created h self (toon_texture mmd_mat) s (update_toon_texture h self s))
           \<and> (\<not> is_shared_toon_texture mmd_mat \<and> toon_texture mmd_mat = [] \<longrightarrow>
                toon_removed self (update_toon_texture h self s))"
    using len created removed
    by (simp add: update_toon_texture_def toon_path_def remove_toon_texture_def Let_def)
  have frame: "\<forall>s' m idx. update_toon_texture h self s = Inr s' \<and> (m \<noteq> self \<or> idx \<noteq> TOON_TEX_SLOT) \<longrightarrow>
             slot_at s' m idx = slot_at s m idx"
  proof (intro allI impI)
    fix s' m idx
    assume a: "update_toon_texture h self s = Inr s' \<and> (m \<noteq> self \<or> idx \<noteq> TOON_TEX_SLOT)"
    let ?mm = "mmd_material (materials s ! self)"
    consider (shared) "is_shared_toon_texture ?mm"
      | (path) "\<not> is_shared_toon_texture ?mm" "toon_texture ?mm \<noteq> []"
      | (none) "\<not> is_shared_toon_texture ?mm" "toon_texture ?mm = []"
      by blast
    then show "slot_at s' m idx = slot_at s m idx"
    proof cases
      case shared
      then have "create_toon_texture h self (resolve_ncase h (toon_path h (shared_toon_texture ?mm))) s
          = Inr s'"
        using a len by (simp add: update_toon_texture_def Let_def)
      then show ?thesis
        using frame_create a by blast
    next
      case path
      then have "create_toon_texture h self (toon_texture ?mm) s = Inr s'"
        using a len by (simp add: update_toon_texture_def Let_def)
      then show ?thesis
        using frame_create a by blast
    next
      case none
      then have "remove_texture self TOON_TEX_SLOT s = Inr s'"
        using a len by (simp add: update_toon_texture_def remove_toon_texture_def Let_def)
      then have "s' = s0" using rem by simp
      then show ?thesis
        using frame_remove a by blast
    qed
  qed
  have f3: "''toon'' @ format_02d (2 + 1) @ ''.bmp'' = ''toon03.bmp''"
    by (simp add: format_02d_def decimal_digit)
  have f1: "\<forall>n. 0 \<le> n \<and> n < 10 \<longrightarrow> format_02d n = [CHR ''0'', ''0123456789'' ! nat n]"
  proof (intro allI impI)
    fix n :: int
    assume "0 \<le> n \<and> n < 10"
    then have "\<not> n < 0" "nat n < 10" by auto
    then show "format_02d n = [CHR ''0'', ''0123456789'' ! nat n]"
      by (simp add: format_02d_def decimal_digit)
  qed
  have f2: "\<forall>n. 10 \<le> n \<and> n < 100 \<longrightarrow>
          format_02d n = [''0123456789'' ! (nat n div 10), ''0123456789'' ! (nat n mod 10)]"
  proof (intro allI impI)
    fix n :: int
    assume "10 \<le> n \<and> n < 100"
    then have "\<not> n < 0" "10 \<le> nat n" "nat n < 100" by auto
    then show "format_02d n = [''0123456789'' ! (nat n div 10), ''0123456789'' ! (nat n mod 10)]"
      by (simp add: format_02d_def decimal_two_digits)
  qed
  from branches frame f3 f1 f2 show ?thesis
    by (intro conjI)
qed

lemma toon_scene_facts:
  "reach 0 TOON_TEX_SLOT toon_scene = None" "reach 1 TOON_TEX_SLOT toon_scene = None"
  "distinct_refs toon_scene"
  "slot_texture_in_store toon_scene 0 TOON_TEX_SLOT"
  "slot_texture_in_store toon_scene 1 TOON_TEX_SLOT"
  "reach 1 TOON_TEX_SLOT example_scene = None" "distinct_refs example_scene"
  "slot_texture_in_store example_scene 1 TOON_TEX_SLOT"
  by code_simp+

lemma toon_scene_properties:
  "mmd_material (materials toon_scene ! 0) =
     (example_properties (- 1))\<lparr>is_shared_toon_texture := True\<rparr>"
  "mmd_material (materials toon_scene ! 1) = (example_properties 4)\<lparr>toon_texture := ''b.png''\<rparr>"
  "mmd_material (materials example_scene ! 1) = example_properties 4"
  by (simp_all add: toon_scene_def example_scene_def example_material_def)

lemma example_shared_path:
  "resolve_ncase example_host
     (path_join example_host (shared_toon_folder example_host)
       (''toon'' @ format_02d (2 + 1) @ ''.bmp'')) = ''toons/toon03.bmp''"
  by (simp add: example_host_def format_02d_def decimal_digit)

lemma toon_scene_results:
  "case update_toon_texture example_host 0 toon_scene of
     Inl e \<Rightarrow> False
   | Inr s' \<Rightarrow>
       slot_at s' 0 TOON_TEX_SLOT =
         Some \<lparr>use_map_alpha = False, texture_coords = ''NORMAL'', blend_type = ''MULTIPLY'',
               slot_use = True, slot_texture = Some 8\<rparr>
       \<and> map_of (textures s') 8 =
         Some \<lparr>tex_name = ''toons/toon03.bmp'', tex_type = ''IMAGE'', tex_image = Some 4,
               tex_use_alpha = False, tex_extension = ''EXTEND''\<rparr>
       \<and> map_of (images s') 4 =
         Some \<lparr>img_name = ''toons/toon03.bmp'', img_source = ''FILE'',
               img_filepath = ''toons/toon03.bmp'', img_use_alpha = False, img_size = (1, 1)\<rparr>
       \<and> warnings s' = [''Cannot create a texture for toons/toon03.bmp. No such file.'']"
  "case update_toon_texture example_host 1 toon_scene of
     Inl e \<Rightarrow> False
   | Inr s' \<Rightarrow>
       slot_at s' 1 TOON_TEX_SLOT =
         Some \<lparr>use_map_alpha = False, texture_coords = ''NORMAL'', blend_type = ''MULTIPLY'',
               slot_use = True, slot_texture = Some 7\<rparr>
       \<and> map_of (textures s') 7 =
         Some \<lparr>tex_name = ''b.png'', tex_type = ''IMAGE'', tex_image = Some 3,
               tex_use_alpha = False, tex_extension = ''EXTEND''\<rparr>
       \<and> map_of (images s') 3 =
         Some \<lparr>img_name = ''b.png'', img_source = ''FILE'', img_filepath = ''b.png'',
               img_use_alpha = False, img_size = (4, 4)\<rparr>
       \<and> slot_at s' 1 SPHERE_TEX_SLOT = Some (example_slot (Some 7))"
  "case update_toon_texture example_host 1 example_scene of
     Inl e \<Rightarrow> False
   | Inr s' \<Rightarrow>
       slot_at s' 1 TOON_TEX_SLOT = None
       \<and> slot_at s' 1 SPHERE_TEX_SLOT = Some (example_slot (Some 7))
       \<and> map fst (textures s') = [7]"
  by code_simp+

theorem update_toon_texture_branches_witness:
  "reach 0 TOON_TEX_SLOT toon_scene = None \<and> reach 1 TOON_TEX_SLOT toon_scene = None
   \<and> distinct_refs toon_scene
   \<and> slot_texture_in_store toon_scene 0 TOON_TEX_SLOT
   \<and> slot_texture_in_store toon_scene 1 TOON_TEX_SLOT
   \<and> is_shared_toon_texture (mmd_material (materials toon_scene ! 0))
   \<and> shared_toon_texture (mmd_material (materials toon_scene ! 0)) = 2
   \<and> toon_created example_host 0 ''toons/toon03.bmp'' toon_scene
        (update_toon_texture example_host 0 toon_scene)
   \<and> (case update_toon_texture example_host 0 toon_scene of
         Inl e \<Rightarrow> False
       | Inr s' \<Rightarrow>
           slot_at s' 0 TOON_TEX_SLOT =
             Some \<lparr>use_map_alpha = False, texture_coords = ''NORMAL'', blend_type = ''MULTIPLY'',
                   slot_use = True, slot_texture = Some 8\<rparr>
           \<and> map_of (textures s') 8 =
             Some \<lparr>tex_name = ''toons/toon03.bmp'', tex_type = ''IMAGE'', tex_image = Some 4,
                   tex_use_alpha = False, tex_extension = ''EXTEND''\<rparr>
           \<and> map_of (images s') 4 =
             Some \<lparr>img_name = ''toons/toon03.bmp'', img_source = ''FILE'',
                   img_filepath = ''toons/toon03.bmp'', img_use_alpha = False, img_size = (1, 1)\<rparr>
           \<and> warnings s' = [''Cannot create a texture for toons/toon03.bmp. No such file.''])
   \<and> \<not> is_shared_toon_texture (mmd_material (materials toon_scene ! 1))
   \<and> toon_texture (mmd_material (materials toon_scene ! 1)) = ''b.png''
   \<and> toon_created example_host 1 ''b.png'' toon_scene
        (update_toon_texture example_host 1 toon_scene)
   \<and> (case update_toon_texture example_host 1 toon_scene of
         Inl e \<Rightarrow> False
       | Inr s' \<Rightarrow>
           slot_at s' 1 TOON_TEX_SLOT =
             Some \<lparr>use_map_alpha = False, texture_coords = ''NORMAL'', blend_type = ''MULTIPLY'',
                   slot_use = True, slot_texture = Some 7\<rparr>
           \<and> map_of (textures s') 7 =
             Some \<lparr>tex_name = ''b.png'', tex_type = ''IMAGE'', tex_image = Some 3,
                   tex_use_alpha = False, tex_extension = ''EXTEND''\<rparr>
           \<and> map_of (images s') 3 =
             Some \<lparr>img_name = ''b.png'', img_source = ''FILE'', img_filepath = ''b.png'',
                   img_use_alpha = False, img_size = (4, 4)\<rparr>
           \<and> slot_at s' 1 SPHERE_TEX_SLOT = Some (example_slot (Some 7)))
   \<and> reach 1 TOON_TEX_SLOT example_scene = None \<and> distinct_refs example_scene
   \<and> slot_texture_in_store example_scene 1 TOON_TEX_SLOT
   \<and> \<not> is_shared_toon_texture (mmd_material (materials example_scene ! 1))
   \<and> toon_texture (mmd_material (materials example_scene ! 1)) = []
   \<and> toon_removed 1 (update_toon_texture example_host 1 example_scene)
   \<and> (case update_toon_texture example_host 1 example_scene of
         Inl e \<Rightarrow> False
       | Inr s' \<Rightarrow>
           slot_at s' 1 TOON_TEX_SLOT = None
           \<and> slot_at s' 1 SPHERE_TEX_SLOT = Some (example_slot (Some 7))
           \<and> map fst (textures s') = [7])"
proof -
  note t0 = update_toon_texture_branches [OF toon_scene_facts(1,3,4), of example_host,
      THEN conjunct1, unfolded Let_def toon_scene_properties]
  note t1 = update_toon_texture_branches [OF toon_scene_facts(2,3,5), of example_host,
      THEN conjunct1, unfolded Let_def toon_scene_properties]
  note t2 = update_toon_texture_branches [OF toon_scene_facts(6,7,8), of example_host,
      THEN conjunct1, unfolded Let_def toon_scene_properties]
  have a: "toon_created example_host 0 ''toons/toon03.bmp'' toon_scene
        (update_toon_texture example_host 0 toon_scene)"
    using t0 example_shared_path by (simp add: example_properties_def)
  have b: "toon_created example_host 1 ''b.png'' toon_scene
        (update_toon_texture example_host 1 toon_scene)"
    using t1 by (simp add: example_properties_def)
  have c: "toon_removed 1 (update_toon_texture example_host 1 example_scene)"
    using t2 by (simp add: example_properties_def)
  have p: "is_shared_toon_texture (mmd_material (materials toon_scene ! 0))"
    "shared_toon_texture (mmd_material (materials toon_scene ! 0)) = 2"
    "\<not> is_shared_toon_texture (mmd_material (materials toon_scene ! 1))"
    "toon_texture (mmd_material (materials toon_scene ! 1)) = ''b.png''"
    "\<not> is_shared_toon_texture (mmd_material (materials example_scene ! 1))"
    "toon_texture (mmd_material (materials example_scene ! 1)) = []"
    by code_simp+
  from toon_scene_facts p a b c toon_scene_results show ?thesis
    by (intro conjI)
qed

end
